theory Spec2Isabelle
  imports Main "HOL-Library.Sublist"
begin

section \<open>Errors\<close>

text \<open>
  Every error the modelled Go code builds is a \<^verbatim>\<open>fmt.Errorf\<close> at one place of the
  source. Each place is a constructor that keeps the arguments of the format; \<open>Error\<close>
  is Go's \<^verbatim>\<open>err.Error()\<close> and renders the format string of that place. \<open>External\<close>
  is an error made by code outside the modelled files (the API server, the docker
  client, the operating system), known only by its message.
\<close>

datatype error =
    InjectError string
  | UnexpectedOutput string
  | CmdStartError string
  | WaitProcessExecError string
  | GetCrClientError string string
  | GetPidError string string
  | ToBeSupported
  | NotSupportRuntime string
  | NoContainerInPod
  | NotFoundContainer string
  | ParseContainerIdError string string
  | GetTargetContainerError string string string
  | ListPodError string
  | ListNodeError string
  | ParseContainerInfoError string
  | External string

fun Error :: "error \<Rightarrow> string" where
  "Error (InjectError msg) = ''inject error: '' @ msg"
| "Error (UnexpectedOutput msg) = ''unexpected output: '' @ msg"
| "Error (CmdStartError e) = ''cmd start error: '' @ e"
| "Error (WaitProcessExecError e) = ''wait process exec error: '' @ e"
| "Error (GetCrClientError cr e) = ''get cr['' @ cr @ ''] client error: '' @ e"
| "Error (GetPidError cid e) =
     ''get pid of container['' @ cid @ '']'' @ [CHR 0x27] @ ''s init process error: '' @ e"
| "Error ToBeSupported = ''to be supported''"
| "Error (NotSupportRuntime cr) = ''not support container runtime: '' @ cr"
| "Error NoContainerInPod = ''no container in pod''"
| "Error (NotFoundContainer n) = ''not found container '' @ n"
| "Error (ParseContainerIdError cid e) = ''parse container id['' @ cid @ ''] error: '' @ e"
| "Error (GetTargetContainerError n pod e) =
     ''get target container['' @ n @ ''] in pod['' @ pod @ ''] error: '' @ e"
| "Error (ListPodError e) = ''list pod info error: '' @ e"
| "Error (ListNodeError e) = ''list node error: '' @ e"
| "Error (ParseContainerInfoError e) = ''parse container info error: '' @ e"
| "Error (External e) = e"

section \<open>Strings\<close>

text \<open>
  Go's \<^verbatim>\<open>strings.Index(s, substr)\<close>: the index of the first instance of \<open>substr\<close>
  in \<open>s\<close>, or \<open>-1\<close> if there is none. \<open>IndexFrom\<close> scans from position \<open>i\<close>.
\<close>

fun IndexFrom :: "string \<Rightarrow> string \<Rightarrow> int \<Rightarrow> int" where
  "IndexFrom [] substr i = (if substr = [] then i else - 1)"
| "IndexFrom (c # cs) substr i =
     (if prefix substr (c # cs) then i else IndexFrom cs substr (i + 1))"

definition Index :: "string \<Rightarrow> string \<Rightarrow> int" where
  "Index s substr = IndexFrom s substr 0"

section \<open>Process executor (pkg/utils/cmdexec/cmd.go)\<close>

text \<open>
  \<^verbatim>\<open>InjectCheckInterval = time.Millisecond * 200\<close>, in milliseconds.
\<close>

definition InjectCheckInterval :: nat where
  "InjectCheckInterval = 200"

text \<open>
  The child's buffers are written by the running process, so what the loop reads
  depends on when it reads: \<open>bufs t\<close> is the content \<open>(stdout, stderr)\<close> of the two
  buffers at time \<open>t\<close> (milliseconds on the clock the timer runs on). One pass of the
  loop of \<^verbatim>\<open>waitProExec\<close> waits for the timer, which was set to
  \<open>InjectCheckInterval\<close>, reads the buffers and either leaves the loop with
  \<open>stdout.String() + stderr.String()\<close> or resets the timer. The loop has no other exit,
  so it is a partial function: \<open>None\<close> is the loop that never ends. The result holds
  the time of the read that ended the loop, and the message.
\<close>

partial_function (option) waitLoop :: "(nat \<Rightarrow> string \<times> string) \<Rightarrow> nat \<Rightarrow> (nat \<times> string) option" where
  "waitLoop bufs t =
     (let t' = t + InjectCheckInterval; stdout = fst (bufs t'); stderr = snd (bufs t')
      in if stderr \<noteq> [] \<or> stdout \<noteq> [] then Some (t', stdout @ stderr)
         else waitLoop bufs t')"

text \<open>
  The classification of the message after the loop: \<open>None\<close> is Go's \<^verbatim>\<open>nil\<close> error.
\<close>

definition classify :: "string \<Rightarrow> error option" where
  "classify msg =
     (if Index msg ''error'' \<ge> 0 then Some (InjectError msg)
      else if Index msg ''[success]'' \<ge> 0 then None
      else Some (UnexpectedOutput msg))"

text \<open>
  \<^verbatim>\<open>waitProExec(stdout, stderr)\<close>, called at time \<open>t\<close>: the outer option is whether the
  call returns, the inner one the error it returns.
\<close>

definition waitProExec :: "(nat \<Rightarrow> string \<times> string) \<Rightarrow> nat \<Rightarrow> (nat \<times> error option) option" where
  "waitProExec bufs t =
     (case waitLoop bufs t of
        None \<Rightarrow> None
      | Some (t', msg) \<Rightarrow> Some (t', classify msg))"

text \<open>
  What the executor needs from the host. \<open>Start argv\<close> is \<^verbatim>\<open>c.Start()\<close> of the
  command \<open>argv\<close>: the error, or the PID \<^verbatim>\<open>c.Process.Pid\<close> of the child.
  \<open>Buffers argv\<close> is the content of the child's two buffers over time. \<open>GetToolPath\<close>
  and \<open>NoPid\<close> are \<^verbatim>\<open>utils.GetToolPath\<close> and \<^verbatim>\<open>utils.NoPid\<close>, and
  \<open>docker_GetClient\<close> is the result of \<^verbatim>\<open>docker.GetClient\<close>; the three are declared
  in packages outside the modelled files.
\<close>

record client =
  GetPidById :: "string \<Rightarrow> int \<times> error option"

record host =
  Start :: "string list \<Rightarrow> error + int"
  Buffers :: "string list \<Rightarrow> nat \<Rightarrow> string \<times> string"
  GetToolPath :: "string \<Rightarrow> string"
  NoPid :: int
  docker_GetClient :: "client option \<times> error option"

text \<open>
  The state the executor changes: the clock, and the commands on which
  \<^verbatim>\<open>Start()\<close> has been called, oldest first.
\<close>

record state =
  now :: nat
  started :: "string list list"

text \<open>
  \<^verbatim>\<open>StartBashCmdAndWaitPid(cmd)\<close>. \<open>None\<close>: the call never returns.
\<close>

definition StartBashCmdAndWaitPid ::
  "host \<Rightarrow> state \<Rightarrow> string \<Rightarrow> (state \<times> int \<times> error option) option" where
  "StartBashCmdAndWaitPid h s cmd =
     (let c = [''/bin/bash'', ''-c'', cmd];
          s1 = s\<lparr>started := started s @ [c]\<rparr>
      in case Start h c of
           Inl err \<Rightarrow> Some (s1, NoPid h, Some (CmdStartError (Error err)))
         | Inr pid \<Rightarrow>
             (case waitProExec (Buffers h c) (now s1) of
                None \<Rightarrow> None
              | Some (t, Some err) \<Rightarrow>
                  Some (s1\<lparr>now := t\<rparr>, pid, Some (WaitProcessExecError (Error err)))
              | Some (t, None) \<Rightarrow> Some (s1\<lparr>now := t\<rparr>, pid, None)))"

section \<open>Container runtime client (pkg/crclient/client.go)\<close>

definition CrLocal :: string where
  "CrLocal = ''local''"

definition CrDocker :: string where
  "CrDocker = ''docker''"

definition CrContainerd :: string where
  "CrContainerd = ''containerd''"

text \<open>
  \<^verbatim>\<open>GetClient(ctx, cr)\<close>. The context is used for the debug log only. The result is
  Go's pair of a client and an error, each of which may be \<^verbatim>\<open>nil\<close> (\<open>None\<close>); \<open>dk\<close>
  is what \<^verbatim>\<open>docker.GetClient(ctx)\<close> returns.
\<close>

definition GetClient :: "client option \<times> error option \<Rightarrow> string \<Rightarrow> client option \<times> error option" where
  "GetClient dk cr =
     (if cr = CrDocker then dk
      else if cr = CrContainerd then (None, Some ToBeSupported)
      else (None, Some (NotSupportRuntime cr)))"

section \<open>Running a command in a container's namespaces (cmd.go, ExecContainer)\<close>

text \<open>
  The decimal form \<^verbatim>\<open>%d\<close> of an integer.
\<close>

fun natDigits :: "nat \<Rightarrow> string" where
  "natDigits n =
     (if n < 10 then [''0123456789'' ! n]
      else natDigits (n div 10) @ [''0123456789'' ! (n mod 10)])"

declare natDigits.simps [simp del]

definition Itoa :: "int \<Rightarrow> string" where
  "Itoa i = (if i < 0 then ''-'' @ natDigits (nat (- i)) else natDigits (nat i))"

text \<open>
  The number a string of decimal digits stands for, to check \<open>natDigits\<close> against.
\<close>

definition decimalValue :: "string \<Rightarrow> nat" where
  "decimalValue ds = foldl (\<lambda>v c. 10 * v + (of_char c - 48)) 0 ds"

definition execnsKey :: string where
  "execnsKey = ''chaosmeta_execns''"

text \<open>
  \<^verbatim>\<open>fmt.Sprintf("%s %d %s %s", utils.GetToolPath(execnsKey), targetPid, namespaces, cmd)\<close>.
\<close>

definition execnsCmd :: "host \<Rightarrow> int \<Rightarrow> string \<Rightarrow> string \<Rightarrow> string" where
  "execnsCmd h targetPid namespaces cmd =
     GetToolPath h execnsKey @ '' '' @ Itoa targetPid @ '' '' @ namespaces @ '' '' @ cmd"

text \<open>
  A call either returns or panics; a method call on a \<^verbatim>\<open>nil\<close> interface value panics.
\<close>

datatype 'a outcome = Returns 'a | Panics

text \<open>
  \<^verbatim>\<open>ExecContainer(cmd, cr, containerId, namespaces)\<close>.
\<close>

definition ExecContainer ::
  "host \<Rightarrow> state \<Rightarrow> string \<Rightarrow> string \<Rightarrow> string \<Rightarrow> string \<Rightarrow>
     (state \<times> (int \<times> error option) outcome) option" where
  "ExecContainer h s cmd cr containerId namespaces =
     (case GetClient (docker_GetClient h) cr of
        (_, Some err) \<Rightarrow> Some (s, Returns (NoPid h, Some (GetCrClientError cr (Error err))))
      | (None, None) \<Rightarrow> Some (s, Panics)
      | (Some cl, None) \<Rightarrow>
          (case GetPidById cl containerId of
             (_, Some err) \<Rightarrow>
               Some (s, Returns (NoPid h, Some (GetPidError containerId (Error err))))
           | (targetPid, None) \<Rightarrow>
               (case StartBashCmdAndWaitPid h s (execnsCmd h targetPid namespaces cmd) of
                  None \<Rightarrow> None
                | Some (s', r) \<Rightarrow> Some (s', Returns r))))"

section \<open>Target analyzer (package selector)\<close>

text \<open>
  The parts of the Kubernetes objects the analyzer reads: a container status
  (\<^verbatim>\<open>corev1.ContainerStatus\<close>), a pod (\<^verbatim>\<open>corev1.Pod\<close>: metadata, spec and status,
  flattened), a node address and a node (\<^verbatim>\<open>corev1.Node\<close>).
\<close>

record ContainerStatus =
  cs_Name :: string
  cs_ContainerID :: string

record Pod =
  pod_Name :: string
  pod_UID :: string
  pod_Namespace :: string
  pod_Spec_NodeName :: string
  pod_Status_PodIP :: string
  pod_Status_HostIP :: string
  pod_Status_ContainerStatuses :: "ContainerStatus list"

record NodeAddress =
  addr_Type :: string
  addr_Address :: string

record Node =
  node_Name :: string
  node_Status_Addresses :: "NodeAddress list"

text \<open>
  \<^verbatim>\<open>model.PodObject\<close> and \<^verbatim>\<open>model.NodeObject\<close>, with the fields the analyzer sets. A
  field that is not set holds Go's zero value, the empty string.
\<close>

record PodObject =
  PodName :: string
  PodUID :: string
  PodIP :: string
  Namespace :: string
  NodeName :: string
  NodeIP :: string
  ContainerRuntime :: string
  ContainerID :: string
  ContainerName :: string

record NodeObject =
  node_NodeName :: string
  node_NodeInternalIP :: string
  node_HostName :: string
  node_ContainerRuntime :: string
  node_ContainerID :: string

text \<open>
  What the analyzer calls outside the modelled file: \<open>ListPods ns\<close> is
  \<^verbatim>\<open>ApiServer.List\<close> of the pods with the option \<^verbatim>\<open>client.InNamespace(ns)\<close>, and
  \<open>ListNodes\<close> the one of the nodes with no option: the error, or the items in the
  order the server gives them. \<open>FirstContainer\<close> is the constant
  \<^verbatim>\<open>v1alpha1.FirstContainer\<close> and \<open>ParseContainerID\<close> the function
  \<^verbatim>\<open>model.ParseContainerID\<close>, which returns a runtime, an id and an error.
\<close>

record analyzer =
  ListPods :: "string \<Rightarrow> error + Pod list"
  ListNodes :: "error + Node list"
  FirstContainer :: string
  ParseContainerID :: "string \<Rightarrow> string \<times> string \<times> error option"

text \<open>
  The search loop of \<^verbatim>\<open>GetTargetContainer\<close>: the first status with the name.
\<close>

fun findContainer :: "string \<Rightarrow> ContainerStatus list \<Rightarrow> ContainerStatus option" where
  "findContainer containerName [] = None"
| "findContainer containerName (unitC # rest) =
     (if cs_Name unitC = containerName then Some unitC
      else findContainer containerName rest)"

text \<open>
  \<^verbatim>\<open>GetTargetContainer(containerName, status)\<close> returns \<open>(r, id, name, err)\<close>;
  the result \<open>id\<close> is written \<open>id'\<close> here. The named results are the empty string
  where the code returns before setting them.
\<close>

definition GetTargetContainer ::
  "analyzer \<Rightarrow> string \<Rightarrow> ContainerStatus list \<Rightarrow> string \<times> string \<times> string \<times> error option" where
  "GetTargetContainer a containerName status =
     (if length status = 0 then ([], [], [], Some NoContainerInPod)
      else
        case (if containerName = FirstContainer a then Some (status ! 0)
              else findContainer containerName status) of
          None \<Rightarrow> ([], [], [], Some (NotFoundContainer containerName))
        | Some targetContainerInfo \<Rightarrow>
            (case ParseContainerID a (cs_ContainerID targetContainerInfo) of
               (r, id', None) \<Rightarrow> (r, id', cs_Name targetContainerInfo, None)
             | (r, id', Some err) \<Rightarrow>
                 (r, id', cs_Name targetContainerInfo,
                  Some (ParseContainerIdError (cs_ContainerID targetContainerInfo) (Error err)))))"

text \<open>
  A Go \<^verbatim>\<open>map[string]bool\<close>: a missing key reads as \<^verbatim>\<open>false\<close>. \<open>nameMap\<close> is the loop
  that sets every requested name to \<^verbatim>\<open>true\<close>.
\<close>

definition lookupBool :: "(string \<rightharpoonup> bool) \<Rightarrow> string \<Rightarrow> bool" where
  "lookupBool m k = (case m k of None \<Rightarrow> False | Some b \<Rightarrow> b)"

fun nameMap :: "string list \<Rightarrow> (string \<rightharpoonup> bool) \<Rightarrow> (string \<rightharpoonup> bool)" where
  "nameMap [] m = m"
| "nameMap (unitP # rest) m = nameMap rest (m(unitP \<mapsto> True))"

definition newPodObject :: "Pod \<Rightarrow> PodObject" where
  "newPodObject unitPod =
     \<lparr>PodName = pod_Name unitPod, PodUID = pod_UID unitPod,
      PodIP = pod_Status_PodIP unitPod, Namespace = pod_Namespace unitPod,
      NodeName = pod_Spec_NodeName unitPod, NodeIP = pod_Status_HostIP unitPod,
      ContainerRuntime = [], ContainerID = [], ContainerName = []\<rparr>"

text \<open>
  The loop of \<^verbatim>\<open>GetPodListByPodName\<close> over \<^verbatim>\<open>podList.Items\<close>; \<open>result\<close> is the slice
  built so far. An error of \<^verbatim>\<open>GetTargetContainer\<close> ends the function with a
  \<^verbatim>\<open>nil\<close> slice, here the empty list.
\<close>

fun podNameLoop ::
  "analyzer \<Rightarrow> (string \<rightharpoonup> bool) \<Rightarrow> string \<Rightarrow> Pod list \<Rightarrow> PodObject list \<Rightarrow>
     PodObject list \<times> error option" where
  "podNameLoop a podNameMap containerName [] result = (result, None)"
| "podNameLoop a podNameMap containerName (unitPod # rest) result =
     (if \<not> lookupBool podNameMap (pod_Name unitPod)
      then podNameLoop a podNameMap containerName rest result
      else
        let podInfo = newPodObject unitPod in
        if containerName \<noteq> [] then
          (case GetTargetContainer a containerName (pod_Status_ContainerStatuses unitPod) of
             (r, id', name, Some err) \<Rightarrow>
               ([], Some (GetTargetContainerError containerName (pod_Name unitPod) (Error err)))
           | (r, id', name, None) \<Rightarrow>
               podNameLoop a podNameMap containerName rest
                 (result @ [podInfo\<lparr>ContainerRuntime := r, ContainerID := id',
                                    ContainerName := name\<rparr>]))
        else podNameLoop a podNameMap containerName rest (result @ [podInfo]))"

definition GetPodListByPodName ::
  "analyzer \<Rightarrow> string \<Rightarrow> string list \<Rightarrow> string \<Rightarrow> PodObject list \<times> error option" where
  "GetPodListByPodName a namespace podName containerName =
     (case ListPods a namespace of
        Inl err \<Rightarrow> ([], Some (ListPodError (Error err)))
      | Inr items \<Rightarrow> podNameLoop a (nameMap podName Map.empty) containerName items [])"

text \<open>
  The loop over a node's addresses: the last address of a type wins.
\<close>

fun addressLoop :: "NodeAddress list \<Rightarrow> NodeObject \<Rightarrow> NodeObject" where
  "addressLoop [] tmpNode = tmpNode"
| "addressLoop (unitAddress # rest) tmpNode =
     addressLoop rest
       (if addr_Type unitAddress = ''InternalIP''
        then tmpNode\<lparr>node_NodeInternalIP := addr_Address unitAddress\<rparr>
        else if addr_Type unitAddress = ''Hostname''
        then tmpNode\<lparr>node_HostName := addr_Address unitAddress\<rparr>
        else tmpNode)"

definition newNodeObject :: "Node \<Rightarrow> NodeObject" where
  "newNodeObject unitNode =
     addressLoop (node_Status_Addresses unitNode)
       \<lparr>node_NodeName = node_Name unitNode, node_NodeInternalIP = [], node_HostName = [],
        node_ContainerRuntime = [], node_ContainerID = []\<rparr>"

text \<open>
  The loop of \<^verbatim>\<open>GetNodeListByNodeName\<close> over \<^verbatim>\<open>nodeList.Items\<close>.
\<close>

fun nodeNameLoop ::
  "analyzer \<Rightarrow> (string \<rightharpoonup> bool) \<Rightarrow> string \<Rightarrow> Node list \<Rightarrow> NodeObject list \<Rightarrow>
     NodeObject list \<times> error option" where
  "nodeNameLoop a nodeNameMap containerName [] result = (result, None)"
| "nodeNameLoop a nodeNameMap containerName (unitNode # rest) result =
     (if \<not> lookupBool nodeNameMap (node_Name unitNode)
      then nodeNameLoop a nodeNameMap containerName rest result
      else
        let tmpNode = newNodeObject unitNode in
        if containerName \<noteq> [] then
          (case ParseContainerID a containerName of
             (r, id', Some err) \<Rightarrow> ([], Some (ParseContainerInfoError (Error err)))
           | (r, id', None) \<Rightarrow>
               nodeNameLoop a nodeNameMap containerName rest
                 (result @ [tmpNode\<lparr>node_ContainerRuntime := r, node_ContainerID := id'\<rparr>]))
        else nodeNameLoop a nodeNameMap containerName rest (result @ [tmpNode]))"

definition GetNodeListByNodeName ::
  "analyzer \<Rightarrow> string list \<Rightarrow> string \<Rightarrow> NodeObject list \<times> error option" where
  "GetNodeListByNodeName a nodeName containerName =
     (case ListNodes a of
        Inl err \<Rightarrow> ([], Some (ListNodeError (Error err)))
      | Inr items \<Rightarrow> nodeNameLoop a (nameMap nodeName Map.empty) containerName items [])"

text \<open>
  Two readings of the loop body of \<^verbatim>\<open>GetPodListByPodName\<close>, used to state what the
  loop returns: the object the loop appends for a pod, and the error that ends the
  loop at a pod (\<open>None\<close> when the pod's container resolves or none is asked for).
\<close>

definition podObjectOf :: "analyzer \<Rightarrow> string \<Rightarrow> Pod \<Rightarrow> PodObject" where
  "podObjectOf a containerName unitPod =
     (if containerName = [] then newPodObject unitPod
      else case GetTargetContainer a containerName (pod_Status_ContainerStatuses unitPod) of
             (r, id', name, err) \<Rightarrow>
               (newPodObject unitPod)\<lparr>ContainerRuntime := r, ContainerID := id',
                                        ContainerName := name\<rparr>)"

definition containerError :: "analyzer \<Rightarrow> string \<Rightarrow> Pod \<Rightarrow> error option" where
  "containerError a containerName unitPod =
     (if containerName = [] then None
      else snd (snd (snd (GetTargetContainer a containerName
                            (pod_Status_ContainerStatuses unitPod)))))"

section \<open>Phase handler: the running pass\<close>

text \<open>
  The handler's file is not among the sources; only its test
  (\<^verbatim>\<open>phasehandler/recover/handler_test.go\<close>) is. The data are the parts of
  \<^verbatim>\<open>v1alpha1.Experiment\<close> the test reads and writes.
\<close>

datatype StatusType = CreatedStatusType | RunningStatusType | SuccessStatusType | FailedStatusType

datatype PhaseType = InjectPhaseType | RecoverPhaseType

record ExperimentDetailUnit =
  InjectObjectName :: string
  UID :: string
  Status :: StatusType

record Experiment =
  exp_Phase :: PhaseType
  exp_Status :: StatusType
  exp_Inject :: "ExperimentDetailUnit list"
  exp_Recover :: "ExperimentDetailUnit list"

text \<open>
  The scope handler as the test mocks it: \<^verbatim>\<open>GetInjectObject\<close> resolves an object name,
  \<^verbatim>\<open>QueryExperiment\<close> asks an object for the state of the fault with a UID in a phase.
\<close>

record 'obj ScopeHandler =
  GetInjectObject :: "string \<Rightarrow> error + 'obj"
  QueryExperiment :: "'obj \<Rightarrow> string \<Rightarrow> PhaseType \<Rightarrow> error + StatusType"

definition activeDetail :: "Experiment \<Rightarrow> ExperimentDetailUnit list" where
  "activeDetail exp =
     (case exp_Phase exp of InjectPhaseType \<Rightarrow> exp_Inject exp | RecoverPhaseType \<Rightarrow> exp_Recover exp)"

definition setActiveDetail :: "Experiment \<Rightarrow> ExperimentDetailUnit list \<Rightarrow> Experiment" where
  "setActiveDetail exp units =
     (case exp_Phase exp of
        InjectPhaseType \<Rightarrow> exp\<lparr>exp_Inject := units\<rparr>
      | RecoverPhaseType \<Rightarrow> exp\<lparr>exp_Recover := units\<rparr>)"

definition terminal :: "StatusType \<Rightarrow> bool" where
  "terminal st = (st = SuccessStatusType \<or> st = FailedStatusType)"

text \<open>
  Modelled from the spec: the work of \<^verbatim>\<open>SolveRunning\<close> on one target, whose code is
  missing. "For every target currently Running, re-resolve the AtomicObject and call
  QueryExperiment; update the per-target status to the reported terminal state. A query
  failure for one target marks that target Failed and does not affect sibling targets."
  A target whose resolution fails is marked Failed as well.
\<close>

definition solveRunningUnit ::
  "'obj ScopeHandler \<Rightarrow> PhaseType \<Rightarrow> ExperimentDetailUnit \<Rightarrow> ExperimentDetailUnit" where
  "solveRunningUnit h phase u =
     (if Status u \<noteq> RunningStatusType then u
      else case GetInjectObject h (InjectObjectName u) of
             Inl err \<Rightarrow> u\<lparr>Status := FailedStatusType\<rparr>
           | Inr obj \<Rightarrow>
               (case QueryExperiment h obj (UID u) phase of
                  Inl err \<Rightarrow> u\<lparr>Status := FailedStatusType\<rparr>
                | Inr st \<Rightarrow> u\<lparr>Status := st\<rparr>))"

text \<open>
  Modelled from the spec: \<^verbatim>\<open>SolveRunning\<close>, whose code is missing. "Once every target
  detail reaches a terminal state, aggregate: overall status is Succeeded only if all
  targets succeeded, otherwise Failed." "Re-invoking on an already-terminal experiment
  must be a no-op." The pass joins all targets before it aggregates, so the order in
  which the pool runs them does not show: the targets are a \<open>map\<close>.
\<close>

definition SolveRunning :: "'obj ScopeHandler \<Rightarrow> Experiment \<Rightarrow> Experiment" where
  "SolveRunning h exp =
     (if exp_Status exp \<noteq> RunningStatusType then exp
      else
        let units = map (solveRunningUnit h (exp_Phase exp)) (activeDetail exp);
            exp' = setActiveDetail exp units
        in if list_all (\<lambda>u. terminal (Status u)) units
           then exp'\<lparr>exp_Status :=
                       (if list_all (\<lambda>u. Status u = SuccessStatusType) units
                        then SuccessStatusType else FailedStatusType)\<rparr>
           else exp')"

section \<open>Example inputs\<close>

text \<open>
  A host whose child process, started with PID 4242, has written \<open>out\<close> and \<open>err\<close> from
  time 500 on, and whose docker client knows the container \<open>g3g3g\<close>.
\<close>

definition exampleClient :: client where
  "exampleClient =
     \<lparr>GetPidById = (\<lambda>containerID.
        if containerID = ''g3g3g'' then (1234, None)
        else (0, Some (External ''no such container'')))\<rparr>"

definition exampleHost :: "string \<Rightarrow> string \<Rightarrow> host" where
  "exampleHost out err =
     \<lparr>Start = (\<lambda>c. Inr 4242),
      Buffers = (\<lambda>c t. if t < 500 then ([], []) else (out, err)),
      GetToolPath = (\<lambda>key. ''/opt/chaosmeta/tools/'' @ key),
      NoPid = - 1,
      docker_GetClient = (Some exampleClient, None)\<rparr>"

text \<open>
  A namespace with three pods, the last one without a container status, and two nodes.
\<close>

definition examplePod :: "string \<Rightarrow> ContainerStatus list \<Rightarrow> Pod" where
  "examplePod name statuses =
     \<lparr>pod_Name = name, pod_UID = ''uid-'' @ name, pod_Namespace = ''chaosmeta'',
      pod_Spec_NodeName = ''node-1'', pod_Status_PodIP = ''1.2.3.4'',
      pod_Status_HostIP = ''2.2.2.2'', pod_Status_ContainerStatuses = statuses\<rparr>"

definition exampleAnalyzer :: analyzer where
  "exampleAnalyzer =
     \<lparr>ListPods = (\<lambda>ns.
        if ns = ''chaosmeta'' then
          Inr [examplePod ''chaosmeta-0''
                 [\<lparr>cs_Name = ''sidecar'', cs_ContainerID = ''docker://s0''\<rparr>,
                  \<lparr>cs_Name = ''nginx'', cs_ContainerID = ''docker://g3g3g0''\<rparr>],
               examplePod ''chaosmeta-1''
                 [\<lparr>cs_Name = ''nginx'', cs_ContainerID = ''docker://g3g3g1''\<rparr>],
               examplePod ''chaosmeta-2'' []]
        else Inr []),
      ListNodes =
        Inr [\<lparr>node_Name = ''node-1'',
              node_Status_Addresses =
                [\<lparr>addr_Type = ''InternalIP'', addr_Address = ''2.2.2.1''\<rparr>,
                 \<lparr>addr_Type = ''Hostname'', addr_Address = ''host-1''\<rparr>]\<rparr>,
             \<lparr>node_Name = ''node-2'',
              node_Status_Addresses =
                [\<lparr>addr_Type = ''InternalIP'', addr_Address = ''2.2.2.2''\<rparr>]\<rparr>],
      FirstContainer = ''firstcontainer'',
      ParseContainerID = (\<lambda>s.
        if prefix ''docker://'' s then (''docker'', drop 9 s, None)
        else ([], [], Some (External ''unexpected container id'')))\<rparr>"

text \<open>
  The experiment and the mocked scope handler of
  \<^verbatim>\<open>TestRecoverPhaseHandler_SolveRunning\<close>: two recover units are running, both
  objects resolve, and both queries fail.
\<close>

definition testExperiment :: Experiment where
  "testExperiment =
     \<lparr>exp_Phase = RecoverPhaseType, exp_Status = RunningStatusType,
      exp_Inject =
        [\<lparr>InjectObjectName = ''pod/chaosmeta/chaosmeta-1'', UID = ''fwaf1'',
          Status = SuccessStatusType\<rparr>,
         \<lparr>InjectObjectName = ''pod/chaosmeta/chaosmeta-2'', UID = ''fwaf2'',
          Status = SuccessStatusType\<rparr>],
      exp_Recover =
        [\<lparr>InjectObjectName = ''pod/chaosmeta/chaosmeta-1'', UID = ''fwaf1'',
          Status = RunningStatusType\<rparr>,
         \<lparr>InjectObjectName = ''pod/chaosmeta/chaosmeta-2'', UID = ''fwaf2'',
          Status = RunningStatusType\<rparr>]\<rparr>"

definition testScopeHandler :: "string ScopeHandler" where
  "testScopeHandler =
     \<lparr>GetInjectObject = (\<lambda>name. Inr name),
      QueryExperiment = (\<lambda>obj uid phase. Inl (External ''expected fail''))\<rparr>"

section \<open>Properties of the string search\<close>

lemma IndexFrom_found: "i \<ge> 0 \<Longrightarrow> (IndexFrom s substr i \<ge> 0) = sublist substr s"
proof (induction s arbitrary: i)
  case Nil
  then show ?case by simp
next
  case (Cons c cs)
  show ?case
  proof (cases "prefix substr (c # cs)")
    case True
    then show ?thesis using Cons.prems by (auto simp: sublist_Cons_right)
  next
    case False
    have "0 \<le> i + 1" using Cons.prems by simp
    from Cons.IH [OF this] False show ?thesis
      by (simp add: sublist_Cons_right)
  qed
qed

lemma Index_found: "(Index s substr \<ge> 0) = sublist substr s"
  by (simp add: Index_def IndexFrom_found)

section \<open>Properties of the process executor and the runtime client\<close>

lemma waitLoop_Some:
  "waitLoop bufs t = Some r \<Longrightarrow>
     \<exists>n. fst r = t + Suc n * InjectCheckInterval \<and> bufs (fst r) \<noteq> ([], []) \<and>
         snd r = fst (bufs (fst r)) @ snd (bufs (fst r)) \<and>
         (\<forall>k<n. bufs (t + Suc k * InjectCheckInterval) = ([], []))"
proof (induction rule: waitLoop.raw_induct[rotated 1, consumes 1])
  case (1 waitLoop' bufs t r)
  let ?t' = "t + InjectCheckInterval"
  show ?case
  proof (cases "snd (bufs ?t') \<noteq> [] \<or> fst (bufs ?t') \<noteq> []")
    case True
    with 1(2) have r: "r = (?t', fst (bufs ?t') @ snd (bufs ?t'))"
      by (simp add: Let_def)
    from True have "bufs ?t' \<noteq> ([], [])" by (cases "bufs ?t'") auto
    with r show ?thesis by (intro exI[of _ 0]) simp
  next
    case False
    with 1(2) have "waitLoop' bufs ?t' = Some r" by (simp add: Let_def)
    from 1(1)[OF this] obtain n where n:
      "fst r = ?t' + Suc n * InjectCheckInterval" "bufs (fst r) \<noteq> ([], [])"
      "snd r = fst (bufs (fst r)) @ snd (bufs (fst r))"
      "\<forall>k<n. bufs (?t' + Suc k * InjectCheckInterval) = ([], [])" by blast
    from False have e: "bufs ?t' = ([], [])" by (cases "bufs ?t'") auto
    have "\<forall>k<Suc n. bufs (t + Suc k * InjectCheckInterval) = ([], [])"
    proof (intro allI impI)
      fix k assume "k < Suc n"
      show "bufs (t + Suc k * InjectCheckInterval) = ([], [])"
      proof (cases k)
        case 0 then show ?thesis using e by simp
      next
        case (Suc j)
        with \<open>k < Suc n\<close> have "j < n" by simp
        with n(4) have "bufs (?t' + Suc j * InjectCheckInterval) = ([], [])" by blast
        then show ?thesis using Suc by (simp add: add.assoc)
      qed
    qed
    with n show ?thesis by (intro exI[of _ "Suc n"]) (simp add: add.assoc)
  qed
qed

lemma waitLoop_returns:
  "bufs (t + Suc n * InjectCheckInterval) \<noteq> ([], []) \<Longrightarrow>
   \<forall>k<n. bufs (t + Suc k * InjectCheckInterval) = ([], []) \<Longrightarrow>
   waitLoop bufs t =
     Some (t + Suc n * InjectCheckInterval,
           fst (bufs (t + Suc n * InjectCheckInterval)) @ snd (bufs (t + Suc n * InjectCheckInterval)))"
proof (induction n arbitrary: t)
  case 0
  then show ?case
    by (subst waitLoop.simps) (cases "bufs (t + InjectCheckInterval)"; auto simp: Let_def)
next
  case (Suc n)
  let ?t' = "t + InjectCheckInterval"
  from Suc.prems(2) have e: "bufs ?t' = ([], [])" by (auto dest: spec[of _ 0])
  have a: "bufs (?t' + Suc n * InjectCheckInterval) \<noteq> ([], [])"
    using Suc.prems(1) by (simp add: add.assoc)
  have b: "\<forall>k<n. bufs (?t' + Suc k * InjectCheckInterval) = ([], [])"
  proof (intro allI impI)
    fix k assume "k < n"
    then have "Suc k < Suc n" by simp
    with Suc.prems(2) have "bufs (t + Suc (Suc k) * InjectCheckInterval) = ([], [])" by blast
    then show "bufs (?t' + Suc k * InjectCheckInterval) = ([], [])" by (simp add: add.assoc)
  qed
  from Suc.IH[OF a b] e show ?case
    by (subst waitLoop.simps) (simp add: Let_def add.assoc)
qed

lemma waitLoop_None:
  "(waitLoop bufs t = None) = (\<forall>n. bufs (t + Suc n * InjectCheckInterval) = ([], []))"
proof
  assume N: "waitLoop bufs t = None"
  show "\<forall>n. bufs (t + Suc n * InjectCheckInterval) = ([], [])"
  proof (rule ccontr)
    assume "\<not> ?thesis"
    then obtain n where "bufs (t + Suc n * InjectCheckInterval) \<noteq> ([], [])" by blast
    then have ex: "\<exists>n. bufs (t + Suc n * InjectCheckInterval) \<noteq> ([], [])" ..
    define m where "m = (LEAST n. bufs (t + Suc n * InjectCheckInterval) \<noteq> ([], []))"
    have 1: "bufs (t + Suc m * InjectCheckInterval) \<noteq> ([], [])"
      unfolding m_def using ex by (rule LeastI_ex)
    have 2: "\<forall>k<m. bufs (t + Suc k * InjectCheckInterval) = ([], [])"
      unfolding m_def using not_less_Least by blast
    from waitLoop_returns[OF 1 2] N show False by simp
  qed
next
  assume A: "\<forall>n. bufs (t + Suc n * InjectCheckInterval) = ([], [])"
  show "waitLoop bufs t = None"
  proof (cases "waitLoop bufs t")
    case None then show ?thesis .
  next
    case (Some r)
    from waitLoop_Some[OF this] A show ?thesis by auto
  qed
qed


lemma classify_sublist:
  "classify msg =
     (if sublist ''error'' msg then Some (InjectError msg)
      else if sublist ''[success]'' msg then None
      else Some (UnexpectedOutput msg))"
  by (simp add: classify_def Index_found)

text \<open>
  Claim C1. Whatever combined text \<open>msg\<close> (stdout followed by stderr) the loop of
  \<^verbatim>\<open>waitProExec\<close> captures, the call returns: an injection error carrying \<open>msg\<close> if
  \<open>msg\<close> contains \<open>error\<close>; otherwise no error if \<open>msg\<close> contains \<open>[success]\<close>;
  otherwise an unexpected-output error carrying \<open>msg\<close>. So a text with \<open>[success]\<close>
  and without \<open>error\<close> succeeds.
\<close>

theorem waitProExec_classification:
  assumes "waitLoop bufs t = Some (t', msg)"
  shows "msg = fst (bufs t') @ snd (bufs t') \<and>
         waitProExec bufs t =
           Some (t', if sublist ''error'' msg then Some (InjectError msg)
                     else if sublist ''[success]'' msg then None
                     else Some (UnexpectedOutput msg))"
proof -
  from waitLoop_Some[OF assms] have "msg = fst (bufs t') @ snd (bufs t')" by auto
  moreover have "waitProExec bufs t = Some (t', classify msg)"
    using assms by (simp add: waitProExec_def)
  ultimately show ?thesis by (simp add: classify_sublist)
qed

lemma waitProExec_None:
  "(waitProExec bufs t = None) = (waitLoop bufs t = None)"
  by (simp add: waitProExec_def split: option.splits prod.splits)

text \<open>
  Claim C8. The loop of \<^verbatim>\<open>waitProExec\<close> reads the buffers every 200 ms of the
  timer's clock. It never returns exactly when both buffers are empty at every read;
  when it returns, it does so at the first read that finds a buffer non-empty. The
  function takes the two buffers and nothing else: it has no deadline and no context.
\<close>

theorem waitProExec_waits_for_output:
  "InjectCheckInterval = 200 \<and>
   ((waitProExec bufs t = None) = (\<forall>n. bufs (t + Suc n * InjectCheckInterval) = ([], []))) \<and>
   (\<forall>t' r. waitProExec bufs t = Some (t', r) \<longrightarrow>
      (\<exists>n. t' = t + Suc n * InjectCheckInterval \<and> bufs t' \<noteq> ([], []) \<and>
           (\<forall>k<n. bufs (t + Suc k * InjectCheckInterval) = ([], []))))"
proof (intro conjI allI impI)
  show "InjectCheckInterval = 200" by (simp add: InjectCheckInterval_def)
  show "(waitProExec bufs t = None) = (\<forall>n. bufs (t + Suc n * InjectCheckInterval) = ([], []))"
    by (simp only: waitProExec_None waitLoop_None)
next
  fix t' r
  assume "waitProExec bufs t = Some (t', r)"
  then obtain msg where "waitLoop bufs t = Some (t', msg)"
    by (auto simp: waitProExec_def split: option.splits prod.splits)
  from waitLoop_Some[OF this]
  show "\<exists>n. t' = t + Suc n * InjectCheckInterval \<and> bufs t' \<noteq> ([], []) \<and>
           (\<forall>k<n. bufs (t + Suc k * InjectCheckInterval) = ([], []))"
    by auto
qed

lemma waitProExec_returns:
  assumes "bufs (t + Suc n * InjectCheckInterval) \<noteq> ([], [])"
  shows "\<exists>t' r. waitProExec bufs t = Some (t', r)"
proof (cases "waitProExec bufs t")
  case None
  from None [unfolded waitProExec_None waitLoop_None] assms show ?thesis by blast
next
  case (Some a)
  then show ?thesis by (cases a) simp
qed

text \<open>
  Claim C5. When the command has started with PID \<open>pid\<close>, every return of
  \<^verbatim>\<open>StartBashCmdAndWaitPid\<close> carries \<open>pid\<close>, with the error of the classification
  (wrapped) or none; the call does return once the child has written output. Only
  when the start itself fails is \<^verbatim>\<open>NoPid\<close> returned.
\<close>

theorem StartBashCmdAndWaitPid_pid:
  "(Start h [''/bin/bash'', ''-c'', cmd] = Inr pid \<longrightarrow>
      (\<forall>s' p e. StartBashCmdAndWaitPid h s cmd = Some (s', p, e) \<longrightarrow> p = pid) \<and>
      ((\<exists>n. Buffers h [''/bin/bash'', ''-c'', cmd] (now s + Suc n * InjectCheckInterval) \<noteq> ([], []))
         \<longrightarrow> (\<exists>s' e. StartBashCmdAndWaitPid h s cmd = Some (s', pid, e))) \<and>
      (\<forall>t r. waitProExec (Buffers h [''/bin/bash'', ''-c'', cmd]) (now s) = Some (t, r) \<longrightarrow>
         (\<exists>s'. StartBashCmdAndWaitPid h s cmd =
            Some (s', pid, map_option (\<lambda>err. WaitProcessExecError (Error err)) r)))) \<and>
   (Start h [''/bin/bash'', ''-c'', cmd] = Inl err \<longrightarrow>
      (\<exists>s'. StartBashCmdAndWaitPid h s cmd = Some (s', NoPid h, Some (CmdStartError (Error err)))))"
proof (intro conjI allI impI)
  fix s' p e
  assume "Start h [''/bin/bash'', ''-c'', cmd] = Inr pid"
    and "StartBashCmdAndWaitPid h s cmd = Some (s', p, e)"
  then show "p = pid"
    by (auto simp: StartBashCmdAndWaitPid_def Let_def split: option.splits prod.splits)
next
  assume st: "Start h [''/bin/bash'', ''-c'', cmd] = Inr pid"
    and ex: "\<exists>n. Buffers h [''/bin/bash'', ''-c'', cmd] (now s + Suc n * InjectCheckInterval) \<noteq> ([], [])"
  from ex obtain n where
    "Buffers h [''/bin/bash'', ''-c'', cmd] (now s + Suc n * InjectCheckInterval) \<noteq> ([], [])" ..
  from waitProExec_returns[of "Buffers h [''/bin/bash'', ''-c'', cmd]" "now s" n, OF this] obtain t' r where
    "waitProExec (Buffers h [''/bin/bash'', ''-c'', cmd]) (now s) = Some (t', r)" by blast
  with st show "\<exists>s' e. StartBashCmdAndWaitPid h s cmd = Some (s', pid, e)"
    by (cases r) (simp_all add: StartBashCmdAndWaitPid_def Let_def)
next
  fix t r
  assume "Start h [''/bin/bash'', ''-c'', cmd] = Inr pid"
    and "waitProExec (Buffers h [''/bin/bash'', ''-c'', cmd]) (now s) = Some (t, r)"
  then show "\<exists>s'. StartBashCmdAndWaitPid h s cmd =
            Some (s', pid, map_option (\<lambda>err. WaitProcessExecError (Error err)) r)"
    by (cases r) (simp_all add: StartBashCmdAndWaitPid_def Let_def)
next
  assume "Start h [''/bin/bash'', ''-c'', cmd] = Inl err"
  then show "\<exists>s'. StartBashCmdAndWaitPid h s cmd = Some (s', NoPid h, Some (CmdStartError (Error err)))"
    by (simp add: StartBashCmdAndWaitPid_def Let_def)
qed

text \<open>
  Claim C2. \<^verbatim>\<open>GetClient\<close> on \<open>docker\<close> returns what the docker package's factory
  returns, on \<open>containerd\<close> it fails with the error "to be supported", and on \<open>local\<close>
  and on every identifier other than \<open>docker\<close> and \<open>containerd\<close> it fails with the
  error "not support container runtime". It returns no \<^verbatim>\<open>nil\<close> client with a \<^verbatim>\<open>nil\<close>
  error unless the docker factory does.
\<close>

theorem GetClient_cases:
  "GetClient dk CrDocker = dk \<and>
   GetClient dk CrContainerd = (None, Some ToBeSupported) \<and>
   GetClient dk CrLocal = (None, Some (NotSupportRuntime CrLocal)) \<and>
   (cr \<noteq> CrDocker \<and> cr \<noteq> CrContainerd \<longrightarrow> GetClient dk cr = (None, Some (NotSupportRuntime cr))) \<and>
   (dk \<noteq> (None, None) \<longrightarrow> GetClient dk cr \<noteq> (None, None))"
  by (simp add: GetClient_def CrDocker_def CrContainerd_def CrLocal_def)

lemma waitLoop_example:
  "waitLoop (Buffers (exampleHost out err) c) 0 =
     (if err \<noteq> [] \<or> out \<noteq> [] then Some (600, out @ err) else None)"
proof (cases "err \<noteq> [] \<or> out \<noteq> []")
  case True
  then have 1: "Buffers (exampleHost out err) c (0 + Suc 2 * InjectCheckInterval) \<noteq> ([], [])"
    by (auto simp: exampleHost_def InjectCheckInterval_def)
  have 2: "\<forall>k<2. Buffers (exampleHost out err) c (0 + Suc k * InjectCheckInterval) = ([], [])"
    by (auto simp: exampleHost_def InjectCheckInterval_def less_Suc_eq numeral_2_eq_2)
  from waitLoop_returns[OF 1 2] True show ?thesis
    by (simp add: exampleHost_def InjectCheckInterval_def)
next
  case False
  then have "\<forall>n. Buffers (exampleHost out err) c (0 + Suc n * InjectCheckInterval) = ([], [])"
    by (simp add: exampleHost_def)
  with False show ?thesis by (simp only: waitLoop_None[symmetric]) simp
qed

theorem waitProExec_classification_witness:
  "waitLoop (Buffers (exampleHost ''cpu burn [success]'' []) []) 0 = Some (600, ''cpu burn [success]'') \<and>
   waitProExec (Buffers (exampleHost ''cpu burn [success]'' []) []) 0 = Some (600, None) \<and>
   waitLoop (Buffers (exampleHost [] ''error: [success] not reached'') []) 0
     = Some (600, ''error: [success] not reached'') \<and>
   waitProExec (Buffers (exampleHost [] ''error: [success] not reached'') []) 0
     = Some (600, Some (InjectError ''error: [success] not reached'')) \<and>
   waitLoop (Buffers (exampleHost ''hello'' []) []) 0 = Some (600, ''hello'') \<and>
   waitProExec (Buffers (exampleHost ''hello'' []) []) 0 = Some (600, Some (UnexpectedOutput ''hello''))"
proof -
  have a: "waitLoop (Buffers (exampleHost ''cpu burn [success]'' []) []) 0 = Some (600, ''cpu burn [success]'')"
    by (simp add: waitLoop_example)
  have b: "waitLoop (Buffers (exampleHost [] ''error: [success] not reached'') []) 0
     = Some (600, ''error: [success] not reached'')"
    by (simp add: waitLoop_example)
  have c: "waitLoop (Buffers (exampleHost ''hello'' []) []) 0 = Some (600, ''hello'')"
    by (simp add: waitLoop_example)
  show ?thesis
    using a b c waitProExec_classification[OF a] waitProExec_classification[OF b]
      waitProExec_classification[OF c]
    by (simp add: Index_found[symmetric] Index_def)
qed


theorem waitProExec_waits_for_output_witness:
  "waitProExec (Buffers (exampleHost [] []) []) 0 = None \<and>
   waitProExec (Buffers (exampleHost ''[success]'' []) []) 0 = Some (600, None) \<and>
   (\<exists>n. 600 = 0 + Suc n * InjectCheckInterval \<and>
        Buffers (exampleHost ''[success]'' []) [] 600 \<noteq> ([], []) \<and>
        (\<forall>k<n. Buffers (exampleHost ''[success]'' []) [] (0 + Suc k * InjectCheckInterval) = ([], [])))"
proof -
  have e: "\<forall>n. Buffers (exampleHost [] []) [] (0 + Suc n * InjectCheckInterval) = ([], [])"
    by (simp add: exampleHost_def)
  have r: "waitProExec (Buffers (exampleHost ''[success]'' []) []) 0 = Some (600, None)"
    by (simp add: waitProExec_def waitLoop_example classify_def Index_def)
  from waitProExec_waits_for_output[of "Buffers (exampleHost [] []) []" 0] e
  have 1: "waitProExec (Buffers (exampleHost [] []) []) 0 = None" by blast
  from waitProExec_waits_for_output[of "Buffers (exampleHost ''[success]'' []) []" 0] r
  have 2: "\<exists>n. 600 = 0 + Suc n * InjectCheckInterval \<and>
        Buffers (exampleHost ''[success]'' []) [] 600 \<noteq> ([], []) \<and>
        (\<forall>k<n. Buffers (exampleHost ''[success]'' []) [] (0 + Suc k * InjectCheckInterval) = ([], []))"
    by blast
  from 1 r 2 show ?thesis by blast
qed

theorem GetClient_cases_witness:
  "''podman'' \<noteq> CrDocker \<and> ''podman'' \<noteq> CrContainerd \<and>
   GetClient (Some exampleClient, None) ''podman'' = (None, Some (NotSupportRuntime ''podman'')) \<and>
   (Some exampleClient, None) \<noteq> (None, None) \<and>
   GetClient (Some exampleClient, None) ''docker'' \<noteq> (None, None)"
  using GetClient_cases[of "(Some exampleClient, None)" "''podman''"]
    GetClient_cases[of "(Some exampleClient, None)" "''docker''"]
  by (simp add: CrDocker_def CrContainerd_def)

theorem StartBashCmdAndWaitPid_pid_witness:
  "Start (exampleHost ''[success]'' []) [''/bin/bash'', ''-c'', ''burn''] = Inr 4242 \<and>
   (\<exists>s'. StartBashCmdAndWaitPid (exampleHost ''[success]'' []) \<lparr>now = 0, started = []\<rparr> ''burn''
      = Some (s', 4242, None)) \<and>
   (\<exists>s'. StartBashCmdAndWaitPid (exampleHost [] ''error'') \<lparr>now = 0, started = []\<rparr> ''burn''
      = Some (s', 4242, Some (WaitProcessExecError ''inject error: error''))) \<and>
   (\<exists>s'. StartBashCmdAndWaitPid (exampleHost ''hello'' []) \<lparr>now = 0, started = []\<rparr> ''burn''
      = Some (s', 4242, Some (WaitProcessExecError ''unexpected output: hello''))) \<and>
   (\<exists>s'. StartBashCmdAndWaitPid
           ((exampleHost [] [])\<lparr>Start := \<lambda>c. Inl (External ''exec: no bash'')\<rparr>)
           \<lparr>now = 0, started = []\<rparr> ''burn''
      = Some (s', - 1, Some (CmdStartError ''exec: no bash'')))"
proof -
  let ?c = "[''/bin/bash'', ''-c'', ''burn'']"
  let ?s = "\<lparr>now = 0, started = []\<rparr>"
  have st: "Start (exampleHost out err) ?c = Inr 4242" for out err
    by (simp add: exampleHost_def)
  have w: "waitProExec (Buffers (exampleHost out err) ?c) 0 =
           (if err \<noteq> [] \<or> out \<noteq> [] then Some (600, classify (out @ err)) else None)" for out err
    by (simp add: waitProExec_def waitLoop_example)
  have w1: "waitProExec (Buffers (exampleHost ''[success]'' []) ?c) (now ?s) = Some (600, None)"
    by (simp add: w classify_def Index_def)
  have w2: "waitProExec (Buffers (exampleHost [] ''error'') ?c) (now ?s)
              = Some (600, Some (InjectError ''error''))"
    by (simp add: w classify_def Index_def)
  have w3: "waitProExec (Buffers (exampleHost ''hello'' []) ?c) (now ?s)
              = Some (600, Some (UnexpectedOutput ''hello''))"
    by (simp add: w classify_def Index_def)
  have f: "Start ((exampleHost [] [])\<lparr>Start := \<lambda>c. Inl (External ''exec: no bash'')\<rparr>) ?c
             = Inl (External ''exec: no bash'')"
    by simp
  have n: "NoPid ((exampleHost [] [])\<lparr>Start := \<lambda>c. Inl (External ''exec: no bash'')\<rparr>) = - 1"
    by (simp add: exampleHost_def)
  from StartBashCmdAndWaitPid_pid[of "exampleHost ''[success]'' []" "''burn''" 4242 ?s] st w1
  have 1: "\<exists>s'. StartBashCmdAndWaitPid (exampleHost ''[success]'' []) ?s ''burn''
      = Some (s', 4242, None)"
    by fastforce
  from StartBashCmdAndWaitPid_pid[of "exampleHost [] ''error''" "''burn''" 4242 ?s] st w2
  have 2: "\<exists>s'. StartBashCmdAndWaitPid (exampleHost [] ''error'') ?s ''burn''
      = Some (s', 4242, Some (WaitProcessExecError ''inject error: error''))"
    by fastforce
  from StartBashCmdAndWaitPid_pid[of "exampleHost ''hello'' []" "''burn''" 4242 ?s] st w3
  have 3: "\<exists>s'. StartBashCmdAndWaitPid (exampleHost ''hello'' []) ?s ''burn''
      = Some (s', 4242, Some (WaitProcessExecError ''unexpected output: hello''))"
    by fastforce
  from StartBashCmdAndWaitPid_pid[of "(exampleHost [] [])\<lparr>Start := \<lambda>c. Inl (External ''exec: no bash'')\<rparr>"
        "''burn''" _ ?s "External ''exec: no bash''"] f n
  have 4: "\<exists>s'. StartBashCmdAndWaitPid
           ((exampleHost [] [])\<lparr>Start := \<lambda>c. Inl (External ''exec: no bash'')\<rparr>) ?s ''burn''
      = Some (s', - 1, Some (CmdStartError ''exec: no bash''))"
    by simp
  from st 1 2 3 4 show ?thesis by blast
qed

text \<open>
  Claim C6. \<^verbatim>\<open>ExecContainer\<close> asks the runtime client for the PID of the container's
  init process and then starts, through \<^verbatim>\<open>StartBashCmdAndWaitPid\<close>, the command line
  made of the tool path, the PID in decimal, the namespaces and the command, in that
  order and separated by single spaces. When the client cannot be made or the PID
  cannot be resolved, it returns \<^verbatim>\<open>NoPid\<close> with an error that carries the resolution
  error's message, and the state is unchanged: \<^verbatim>\<open>Start()\<close> has not been called.
\<close>

theorem ExecContainer_cases:
  "(snd (GetClient (docker_GetClient h) cr) = Some err \<longrightarrow>
      ExecContainer h s cmd cr containerId namespaces =
        Some (s, Returns (NoPid h, Some (GetCrClientError cr (Error err))))) \<and>
   (GetClient (docker_GetClient h) cr = (Some cl, None) \<and>
    GetPidById cl containerId = (p, Some err) \<longrightarrow>
      ExecContainer h s cmd cr containerId namespaces =
        Some (s, Returns (NoPid h, Some (GetPidError containerId (Error err))))) \<and>
   (GetClient (docker_GetClient h) cr = (Some cl, None) \<and>
    GetPidById cl containerId = (p, None) \<longrightarrow>
      ExecContainer h s cmd cr containerId namespaces =
        map_option (\<lambda>(s', r). (s', Returns r))
          (StartBashCmdAndWaitPid h s
             (GetToolPath h ''chaosmeta_execns'' @ '' '' @ Itoa p @ '' '' @ namespaces @ '' '' @ cmd)) \<and>
      (\<forall>s' r. ExecContainer h s cmd cr containerId namespaces = Some (s', r) \<longrightarrow>
         started s' = started s @
           [[''/bin/bash'', ''-c'',
             GetToolPath h ''chaosmeta_execns'' @ '' '' @ Itoa p @ '' '' @ namespaces @ '' '' @ cmd]]))"
proof (intro conjI impI allI)
  assume "snd (GetClient (docker_GetClient h) cr) = Some err"
  then show "ExecContainer h s cmd cr containerId namespaces =
        Some (s, Returns (NoPid h, Some (GetCrClientError cr (Error err))))"
    by (cases "GetClient (docker_GetClient h) cr") (simp add: ExecContainer_def split: option.splits)
next
  assume "GetClient (docker_GetClient h) cr = (Some cl, None) \<and>
    GetPidById cl containerId = (p, Some err)"
  then show "ExecContainer h s cmd cr containerId namespaces =
        Some (s, Returns (NoPid h, Some (GetPidError containerId (Error err))))"
    by (simp add: ExecContainer_def)
next
  assume A: "GetClient (docker_GetClient h) cr = (Some cl, None) \<and>
    GetPidById cl containerId = (p, None)"
  then show E: "ExecContainer h s cmd cr containerId namespaces =
        map_option (\<lambda>(s', r). (s', Returns r))
          (StartBashCmdAndWaitPid h s
             (GetToolPath h ''chaosmeta_execns'' @ '' '' @ Itoa p @ '' '' @ namespaces @ '' '' @ cmd))"
    by (simp add: ExecContainer_def execnsCmd_def execnsKey_def split: option.splits)
  fix s' r
  assume "ExecContainer h s cmd cr containerId namespaces = Some (s', r)"
  with E show "started s' = started s @
           [[''/bin/bash'', ''-c'',
             GetToolPath h ''chaosmeta_execns'' @ '' '' @ Itoa p @ '' '' @ namespaces @ '' '' @ cmd]]"
    by (auto simp: StartBashCmdAndWaitPid_def Let_def split: sum.splits option.splits prod.splits)
qed

lemma digit_char: "d < 10 \<Longrightarrow> (of_char (''0123456789'' ! d) :: nat) = 48 + d"
proof -
  assume "d < 10"
  then have "d \<in> {0, 1, 2, 3, 4, 5, 6, 7, 8, 9}" by auto
  then show ?thesis by (auto simp: nth_Cons')
qed

lemma decimalValue_natDigits: "decimalValue (natDigits n) = n"
proof (induction n rule: natDigits.induct)
  case (1 n)
  show ?case
  proof (cases "n < 10")
    case True
    then show ?thesis
      by (subst natDigits.simps) (simp add: decimalValue_def digit_char)
  next
    case False
    have m: "n mod 10 < 10" by simp
    from False 1 have "decimalValue (natDigits (n div 10)) = n div 10" by simp
    with False m show ?thesis
      by (subst natDigits.simps) (simp add: decimalValue_def digit_char)
  qed
qed

lemma Itoa_1234: "Itoa 1234 = ''1234''"
  by (simp add: Itoa_def natDigits.simps)

theorem ExecContainer_cases_witness:
  "(\<exists>s'. ExecContainer (exampleHost ''[success]'' []) \<lparr>now = 0, started = []\<rparr>
            ''chaosmeta_cpuburn 90'' ''docker'' ''g3g3g'' ''pid,mnt''
          = Some (s', Returns (4242, None)) \<and>
          started s' = [[''/bin/bash'', ''-c'',
             ''/opt/chaosmeta/tools/chaosmeta_execns 1234 pid,mnt chaosmeta_cpuburn 90'']]) \<and>
   ExecContainer (exampleHost ''[success]'' []) \<lparr>now = 0, started = []\<rparr>
       ''chaosmeta_cpuburn 90'' ''containerd'' ''g3g3g'' ''pid,mnt''
     = Some (\<lparr>now = 0, started = []\<rparr>,
             Returns (- 1, Some (GetCrClientError ''containerd'' ''to be supported''))) \<and>
   ExecContainer (exampleHost ''[success]'' []) \<lparr>now = 0, started = []\<rparr>
       ''chaosmeta_cpuburn 90'' ''docker'' ''nope'' ''pid,mnt''
     = Some (\<lparr>now = 0, started = []\<rparr>,
             Returns (- 1, Some (GetPidError ''nope'' ''no such container'')))"
proof -
  let ?h = "exampleHost ''[success]'' []"
  let ?s = "\<lparr>now = 0, started = []\<rparr>"
  let ?line = "''/opt/chaosmeta/tools/chaosmeta_execns 1234 pid,mnt chaosmeta_cpuburn 90''"
  have d: "GetClient (docker_GetClient ?h) ''docker'' = (Some exampleClient, None)"
    by (simp add: GetClient_def CrDocker_def exampleHost_def)
  have c: "snd (GetClient (docker_GetClient ?h) ''containerd'') = Some ToBeSupported"
    by (simp add: GetClient_def CrDocker_def CrContainerd_def)
  have p: "GetPidById exampleClient ''g3g3g'' = (1234, None)"
    by (simp add: exampleClient_def)
  have q: "GetPidById exampleClient ''nope'' = (0, Some (External ''no such container''))"
    by (simp add: exampleClient_def)
  have np: "NoPid ?h = - 1" by (simp add: exampleHost_def)
  have line: "GetToolPath ?h ''chaosmeta_execns'' @ '' '' @ Itoa 1234 @ '' '' @ ''pid,mnt'' @ '' ''
                @ ''chaosmeta_cpuburn 90'' = ?line"
    by (simp add: Itoa_1234) (simp add: exampleHost_def)
  have w: "waitProExec (Buffers ?h c) 0 = Some (600, None)" for c
    by (simp add: waitProExec_def waitLoop_example classify_def Index_def)
  have sth: "Start ?h c = Inr 4242" for c
    by (simp add: exampleHost_def)
  have st: "StartBashCmdAndWaitPid ?h ?s ?line =
              Some (\<lparr>now = 600, started = [[''/bin/bash'', ''-c'', ?line]]\<rparr>, 4242, None)"
    by (simp add: StartBashCmdAndWaitPid_def Let_def sth w)
  note T = ExecContainer_cases[of ?h "''docker''" _ ?s "''chaosmeta_cpuburn 90''" "''g3g3g''"
             "''pid,mnt''" exampleClient 1234]
  from T d p have
    e: "ExecContainer ?h ?s ''chaosmeta_cpuburn 90'' ''docker'' ''g3g3g'' ''pid,mnt'' =
          map_option (\<lambda>(s', r). (s', Returns r))
            (StartBashCmdAndWaitPid ?h ?s
              (GetToolPath ?h ''chaosmeta_execns'' @ '' '' @ Itoa 1234 @ '' '' @ ''pid,mnt'' @ '' ''
                @ ''chaosmeta_cpuburn 90''))"
    by blast
  have 1: "\<exists>s'. ExecContainer ?h ?s ''chaosmeta_cpuburn 90'' ''docker'' ''g3g3g'' ''pid,mnt''
          = Some (s', Returns (4242, None)) \<and> started s' = [[''/bin/bash'', ''-c'', ?line]]"
    by (simp only: e line st) simp
  from ExecContainer_cases[of ?h "''containerd''" ToBeSupported ?s "''chaosmeta_cpuburn 90''"
         "''g3g3g''" "''pid,mnt''"] c np
  have 2: "ExecContainer ?h ?s ''chaosmeta_cpuburn 90'' ''containerd'' ''g3g3g'' ''pid,mnt''
     = Some (?s, Returns (- 1, Some (GetCrClientError ''containerd'' ''to be supported'')))"
    by simp
  from ExecContainer_cases[of ?h "''docker''" "External ''no such container''" ?s
         "''chaosmeta_cpuburn 90''" "''nope''" "''pid,mnt''" exampleClient 0] d q np
  have 3: "ExecContainer ?h ?s ''chaosmeta_cpuburn 90'' ''docker'' ''nope'' ''pid,mnt''
     = Some (?s, Returns (- 1, Some (GetPidError ''nope'' ''no such container'')))"
    by simp
  from 1 2 3 show ?thesis by blast
qed

section \<open>Properties of the target analyzer\<close>

lemma lookupBool_nameMap:
  "lookupBool (nameMap names m) k = (k \<in> set names \<or> lookupBool m k)"
  by (induction names arbitrary: m) (auto simp: lookupBool_def)

lemma lookupBool_nameMap_empty:
  "lookupBool (nameMap names Map.empty) k = (k \<in> set names)"
  by (simp add: lookupBool_nameMap) (simp add: lookupBool_def)

lemma podNameLoop_ok:
  "\<forall>p\<in>set (filter (\<lambda>p. lookupBool M (pod_Name p)) items). containerError a cn p = None \<Longrightarrow>
   podNameLoop a M cn items acc =
     (acc @ map (podObjectOf a cn) (filter (\<lambda>p. lookupBool M (pod_Name p)) items), None)"
proof (induction items arbitrary: acc)
  case Nil
  then show ?case by simp
next
  case (Cons p ps)
  show ?case
  proof (cases "lookupBool M (pod_Name p)")
    case False
    with Cons show ?thesis by simp
  next
    case True
    with Cons.prems have e: "containerError a cn p = None"
      and rest: "\<forall>p\<in>set (filter (\<lambda>p. lookupBool M (pod_Name p)) ps). containerError a cn p = None"
      by simp_all
    show ?thesis
    proof (cases "cn = []")
      case True
      with \<open>lookupBool M (pod_Name p)\<close> Cons.IH[OF rest] show ?thesis
        by (simp add: podObjectOf_def)
    next
      case False
      obtain r i n e' where g: "GetTargetContainer a cn (pod_Status_ContainerStatuses p) = (r, i, n, e')"
        by (cases "GetTargetContainer a cn (pod_Status_ContainerStatuses p)") auto
      with e False have "e' = None" by (simp add: containerError_def)
      with g False \<open>lookupBool M (pod_Name p)\<close> Cons.IH[OF rest] show ?thesis
        by (simp add: podObjectOf_def)
    qed
  qed
qed

lemma podNameLoop_fail:
  "filter (\<lambda>p. lookupBool M (pod_Name p)) items = pre @ p # post \<Longrightarrow>
   \<forall>q\<in>set pre. containerError a cn q = None \<Longrightarrow>
   containerError a cn p = Some e \<Longrightarrow>
   podNameLoop a M cn items acc = ([], Some (GetTargetContainerError cn (pod_Name p) (Error e)))"
proof (induction items arbitrary: acc pre)
  case Nil
  then show ?case by simp
next
  case (Cons x xs)
  note prems = Cons.prems and IH = Cons.IH
  from prems(3) have cn: "cn \<noteq> []" by (auto simp: containerError_def split: if_splits)
  show ?case
  proof (cases "lookupBool M (pod_Name x)")
    case False
    with prems IH show ?thesis by simp
  next
    case True
    with prems(1) have f: "x # filter (\<lambda>p. lookupBool M (pod_Name p)) xs = pre @ p # post"
      by simp
    show ?thesis
    proof (cases pre)
      case Nil
      with f have "x = p" by simp
      obtain r i n e' where g: "GetTargetContainer a cn (pod_Status_ContainerStatuses p) = (r, i, n, e')"
        by (cases "GetTargetContainer a cn (pod_Status_ContainerStatuses p)") auto
      with prems(3) cn have "e' = Some e" by (simp add: containerError_def)
      with g cn True \<open>x = p\<close> show ?thesis by simp
    next
      case (Cons y pre')
      with f have xy: "x = y" and f': "filter (\<lambda>p. lookupBool M (pod_Name p)) xs = pre' @ p # post"
        by simp_all
      from prems(2) Cons xy have ex: "containerError a cn x = None"
        and pre': "\<forall>q\<in>set pre'. containerError a cn q = None" by simp_all
      obtain r i n e' where g: "GetTargetContainer a cn (pod_Status_ContainerStatuses x) = (r, i, n, e')"
        by (cases "GetTargetContainer a cn (pod_Status_ContainerStatuses x)") auto
      with ex cn have "e' = None" by (simp add: containerError_def)
      with g cn True IH[OF f' pre' prems(3)] show ?thesis by simp
    qed
  qed
qed

lemma findContainer_none:
  "(findContainer cn status = None) = (\<forall>c\<in>set status. cs_Name c \<noteq> cn)"
  by (induction status) auto

lemma findContainer_first:
  "\<forall>d\<in>set pre. cs_Name d \<noteq> cn \<Longrightarrow> cs_Name c = cn \<Longrightarrow>
   findContainer cn (pre @ c # post) = Some c"
  by (induction pre) auto

text \<open>
  Claim C7. \<^verbatim>\<open>GetTargetContainer\<close> fails with "no container in pod" on an empty
  status list. On a non-empty list an explicit name found in no status fails with
  "not found container"; otherwise the first-container marker selects the first status
  and an explicit name the first status with that exact name, and the result is the
  runtime and the id parsed from the selected status's container id, with its name
  (and the wrapped parse error when parsing fails).
\<close>

theorem GetTargetContainer_cases:
  "(status = [] \<longrightarrow> GetTargetContainer a cn status = ([], [], [], Some NoContainerInPod)) \<and>
   (status \<noteq> [] \<and> cn \<noteq> FirstContainer a \<and> (\<forall>c\<in>set status. cs_Name c \<noteq> cn) \<longrightarrow>
      GetTargetContainer a cn status = ([], [], [], Some (NotFoundContainer cn))) \<and>
   (status \<noteq> [] \<and>
    (cn = FirstContainer a \<and> c = hd status \<or>
     cn \<noteq> FirstContainer a \<and> cs_Name c = cn \<and>
       (\<exists>pre post. status = pre @ c # post \<and> (\<forall>d\<in>set pre. cs_Name d \<noteq> cn))) \<and>
    ParseContainerID a (cs_ContainerID c) = (r, i, e) \<longrightarrow>
      GetTargetContainer a cn status =
        (r, i, cs_Name c,
         map_option (\<lambda>err. ParseContainerIdError (cs_ContainerID c) (Error err)) e))"
proof (intro conjI impI)
  assume "status = []"
  then show "GetTargetContainer a cn status = ([], [], [], Some NoContainerInPod)"
    by (simp add: GetTargetContainer_def)
next
  assume B: "status \<noteq> [] \<and> cn \<noteq> FirstContainer a \<and> (\<forall>c\<in>set status. cs_Name c \<noteq> cn)"
  then have "findContainer cn status = None" by (simp add: findContainer_none)
  with B show "GetTargetContainer a cn status = ([], [], [], Some (NotFoundContainer cn))"
    by (simp add: GetTargetContainer_def)
next
  assume A: "status \<noteq> [] \<and>
    (cn = FirstContainer a \<and> c = hd status \<or>
     cn \<noteq> FirstContainer a \<and> cs_Name c = cn \<and>
       (\<exists>pre post. status = pre @ c # post \<and> (\<forall>d\<in>set pre. cs_Name d \<noteq> cn))) \<and>
    ParseContainerID a (cs_ContainerID c) = (r, i, e)"
  then have sel: "(if cn = FirstContainer a then Some (status ! 0)
              else findContainer cn status) = Some c"
    by (auto simp: hd_conv_nth findContainer_first)
  from A have "length status \<noteq> 0" by simp
  with sel A show "GetTargetContainer a cn status =
        (r, i, cs_Name c,
         map_option (\<lambda>err. ParseContainerIdError (cs_ContainerID c) (Error err)) e)"
    unfolding GetTargetContainer_def by (cases e) simp_all
qed

lemma matching_eq:
  "filter (\<lambda>p. lookupBool (nameMap names Map.empty) (f p)) items =
   filter (\<lambda>p. f p \<in> set names) items"
  by (simp add: lookupBool_nameMap_empty)

lemma GetPodListByPodName_ok:
  assumes "ListPods a ns = Inr items"
    and "\<forall>p\<in>set (filter (\<lambda>p. pod_Name p \<in> set names) items). containerError a cn p = None"
  shows "GetPodListByPodName a ns names cn =
           (map (podObjectOf a cn) (filter (\<lambda>p. pod_Name p \<in> set names) items), None)"
  using assms podNameLoop_ok[of "nameMap names Map.empty" items a cn "[]"]
  by (simp add: GetPodListByPodName_def matching_eq)

lemma GetPodListByPodName_fail:
  assumes "ListPods a ns = Inr items"
    and "filter (\<lambda>p. pod_Name p \<in> set names) items = pre @ p # post"
    and "\<forall>q\<in>set pre. containerError a cn q = None"
    and "containerError a cn p = Some e"
  shows "GetPodListByPodName a ns names cn =
           ([], Some (GetTargetContainerError cn (pod_Name p) (Error e)))"
  using assms podNameLoop_fail[of "nameMap names Map.empty" items pre p post a cn e "[]"]
  by (simp add: GetPodListByPodName_def matching_eq)

lemma first_failure:
  assumes "\<exists>p\<in>set xs. f p \<noteq> None"
  shows "\<exists>pre p post e. xs = pre @ p # post \<and> (\<forall>q\<in>set pre. f q = None) \<and> f p = Some e"
  using assms
proof (induction xs)
  case Nil
  then show ?case by simp
next
  case (Cons x xs)
  show ?case
  proof (cases "f x")
    case (Some e)
    then have "x # xs = [] @ x # xs \<and> (\<forall>q\<in>set []. f q = None) \<and> f x = Some e" by simp
    then show ?thesis by blast
  next
    case None
    with Cons.prems have "\<exists>p\<in>set xs. f p \<noteq> None" by auto
    from Cons.IH[OF this] obtain pre p post e where
      "xs = pre @ p # post" "\<forall>q\<in>set pre. f q = None" "f p = Some e" by blast
    with None have "x # xs = (x # pre) @ p # post \<and> (\<forall>q\<in>set (x # pre). f q = None) \<and> f p = Some e"
      by simp
    then show ?thesis by blast
  qed
qed

lemma containerError_absent:
  assumes "cn \<noteq> []" "cn \<noteq> FirstContainer a"
    and "\<forall>c\<in>set (pod_Status_ContainerStatuses p). cs_Name c \<noteq> cn"
  shows "containerError a cn p =
           Some (if pod_Status_ContainerStatuses p = [] then NoContainerInPod
                 else NotFoundContainer cn)"
proof -
  from assms(3) have "findContainer cn (pod_Status_ContainerStatuses p) = None"
    by (simp add: findContainer_none)
  with assms(1,2) show ?thesis
    by (simp add: containerError_def GetTargetContainer_def)
qed

theorem GetTargetContainer_cases_witness:
  "GetTargetContainer exampleAnalyzer ''nginx'' [] = ([], [], [], Some NoContainerInPod) \<and>
   GetTargetContainer exampleAnalyzer ''redis''
     [\<lparr>cs_Name = ''sidecar'', cs_ContainerID = ''docker://s0''\<rparr>,
      \<lparr>cs_Name = ''nginx'', cs_ContainerID = ''docker://g3g3g0''\<rparr>]
     = ([], [], [], Some (NotFoundContainer ''redis'')) \<and>
   GetTargetContainer exampleAnalyzer ''firstcontainer''
     [\<lparr>cs_Name = ''sidecar'', cs_ContainerID = ''docker://s0''\<rparr>,
      \<lparr>cs_Name = ''nginx'', cs_ContainerID = ''docker://g3g3g0''\<rparr>]
     = (''docker'', ''s0'', ''sidecar'', None) \<and>
   GetTargetContainer exampleAnalyzer ''nginx''
     [\<lparr>cs_Name = ''sidecar'', cs_ContainerID = ''docker://s0''\<rparr>,
      \<lparr>cs_Name = ''nginx'', cs_ContainerID = ''docker://g3g3g0''\<rparr>]
     = (''docker'', ''g3g3g0'', ''nginx'', None)"
proof -
  let ?sc = "\<lparr>cs_Name = ''sidecar'', cs_ContainerID = ''docker://s0''\<rparr>"
  let ?ng = "\<lparr>cs_Name = ''nginx'', cs_ContainerID = ''docker://g3g3g0''\<rparr>"
  have fc: "FirstContainer exampleAnalyzer = ''firstcontainer''"
    by (simp add: exampleAnalyzer_def)
  have p1: "ParseContainerID exampleAnalyzer (cs_ContainerID ?sc) = (''docker'', ''s0'', None)"
    by (simp add: exampleAnalyzer_def)
  have p2: "ParseContainerID exampleAnalyzer (cs_ContainerID ?ng) = (''docker'', ''g3g3g0'', None)"
    by (simp add: exampleAnalyzer_def)
  from GetTargetContainer_cases[of "[]" exampleAnalyzer "''nginx''"]
  have 1: "GetTargetContainer exampleAnalyzer ''nginx'' [] = ([], [], [], Some NoContainerInPod)"
    by simp
  from GetTargetContainer_cases[of "[?sc, ?ng]" exampleAnalyzer "''redis''"] fc
  have 2: "GetTargetContainer exampleAnalyzer ''redis'' [?sc, ?ng]
             = ([], [], [], Some (NotFoundContainer ''redis''))"
    by simp
  from GetTargetContainer_cases[of "[?sc, ?ng]" exampleAnalyzer "''firstcontainer''" ?sc
         "''docker''" "''s0''" None] fc p1
  have 3: "GetTargetContainer exampleAnalyzer ''firstcontainer'' [?sc, ?ng]
             = (''docker'', ''s0'', ''sidecar'', None)"
    by simp
  have ex: "\<exists>pre post. [?sc, ?ng] = pre @ ?ng # post \<and> (\<forall>d\<in>set pre. cs_Name d \<noteq> ''nginx'')"
    by (intro exI[of _ "[?sc]"] exI[of _ "[]"]) simp
  from GetTargetContainer_cases[of "[?sc, ?ng]" exampleAnalyzer "''nginx''" ?ng
         "''docker''" "''g3g3g0''" None] fc p2 ex
  have 4: "GetTargetContainer exampleAnalyzer ''nginx'' [?sc, ?ng]
             = (''docker'', ''g3g3g0'', ''nginx'', None)"
    by simp
  from 1 2 3 4 show ?thesis by blast
qed

text \<open>
  Claim C4, as amended. \<^verbatim>\<open>GetPodListByPodName\<close> lists the pods of the namespace once
  (and fails when the listing fails) and keeps, in listing order, exactly the listed
  pods whose names are requested. With a container name, each returned pod carries the
  runtime, container id and container name that \<^verbatim>\<open>GetTargetContainer\<close> resolves for
  it. The call fails when the named container is absent from a matching pod's status
  list; the error is the wrapped error of the first matching pod, in listing order,
  whose resolution fails: "not found container" when that pod's non-empty status
  list lacks the name, "no container in pod" when its status list is empty.
\<close>

theorem GetPodListByPodName_result:
  "(ListPods a ns = Inl lerr \<longrightarrow>
      GetPodListByPodName a ns names cn = ([], Some (ListPodError (Error lerr)))) \<and>
   (ListPods a ns = Inr items \<and> cn = [] \<longrightarrow>
      GetPodListByPodName a ns names cn =
        (map newPodObject (filter (\<lambda>p. pod_Name p \<in> set names) items), None)) \<and>
   (ListPods a ns = Inr items \<and> cn \<noteq> [] \<and>
    (\<forall>q\<in>set (filter (\<lambda>p. pod_Name p \<in> set names) items). containerError a cn q = None) \<longrightarrow>
      GetPodListByPodName a ns names cn =
        (map (podObjectOf a cn) (filter (\<lambda>p. pod_Name p \<in> set names) items), None)) \<and>
   (cn \<noteq> [] \<and> GetTargetContainer a cn (pod_Status_ContainerStatuses p) = (r, i, n, None) \<longrightarrow>
      containerError a cn p = None \<and>
      podObjectOf a cn p =
        (newPodObject p)\<lparr>ContainerRuntime := r, ContainerID := i, ContainerName := n\<rparr>) \<and>
   (ListPods a ns = Inr items \<and>
    filter (\<lambda>p. pod_Name p \<in> set names) items = pre @ p # post \<and>
    (\<forall>q\<in>set pre. containerError a cn q = None) \<and> containerError a cn p = Some e \<longrightarrow>
      GetPodListByPodName a ns names cn =
        ([], Some (GetTargetContainerError cn (pod_Name p) (Error e)))) \<and>
   (cn \<noteq> [] \<and> cn \<noteq> FirstContainer a \<and>
    (\<forall>c\<in>set (pod_Status_ContainerStatuses p). cs_Name c \<noteq> cn) \<longrightarrow>
      containerError a cn p =
        Some (if pod_Status_ContainerStatuses p = [] then NoContainerInPod
              else NotFoundContainer cn)) \<and>
   (ListPods a ns = Inr items \<and> cn \<noteq> [] \<and> cn \<noteq> FirstContainer a \<and>
    p \<in> set items \<and> pod_Name p \<in> set names \<and>
    (\<forall>c\<in>set (pod_Status_ContainerStatuses p). cs_Name c \<noteq> cn) \<longrightarrow>
      snd (GetPodListByPodName a ns names cn) \<noteq> None)"
proof (intro conjI impI)
  assume "ListPods a ns = Inl lerr"
  then show "GetPodListByPodName a ns names cn = ([], Some (ListPodError (Error lerr)))"
    by (simp add: GetPodListByPodName_def)
next
  assume A: "ListPods a ns = Inr items \<and> cn = []"
  then have "\<forall>q\<in>set (filter (\<lambda>p. pod_Name p \<in> set names) items). containerError a cn q = None"
    by (simp add: containerError_def)
  with A GetPodListByPodName_ok[of a ns items names cn]
  have "GetPodListByPodName a ns names cn =
        (map (podObjectOf a cn) (filter (\<lambda>p. pod_Name p \<in> set names) items), None)" by blast
  moreover from A have "podObjectOf a cn = newPodObject" by (auto simp: podObjectOf_def)
  ultimately show "GetPodListByPodName a ns names cn =
        (map newPodObject (filter (\<lambda>p. pod_Name p \<in> set names) items), None)" by simp
next
  assume "ListPods a ns = Inr items \<and> cn \<noteq> [] \<and>
    (\<forall>q\<in>set (filter (\<lambda>p. pod_Name p \<in> set names) items). containerError a cn q = None)"
  with GetPodListByPodName_ok[of a ns items names cn]
  show "GetPodListByPodName a ns names cn =
        (map (podObjectOf a cn) (filter (\<lambda>p. pod_Name p \<in> set names) items), None)" by blast
next
  assume B: "cn \<noteq> [] \<and> GetTargetContainer a cn (pod_Status_ContainerStatuses p) = (r, i, n, None)"
  then show "containerError a cn p = None" by (simp add: containerError_def)
  from B show "podObjectOf a cn p =
        (newPodObject p)\<lparr>ContainerRuntime := r, ContainerID := i, ContainerName := n\<rparr>"
    by (simp add: podObjectOf_def)
next
  assume "ListPods a ns = Inr items \<and>
    filter (\<lambda>p. pod_Name p \<in> set names) items = pre @ p # post \<and>
    (\<forall>q\<in>set pre. containerError a cn q = None) \<and> containerError a cn p = Some e"
  with GetPodListByPodName_fail[of a ns items names pre p post cn e]
  show "GetPodListByPodName a ns names cn =
        ([], Some (GetTargetContainerError cn (pod_Name p) (Error e)))" by blast
next
  assume "cn \<noteq> [] \<and> cn \<noteq> FirstContainer a \<and>
    (\<forall>c\<in>set (pod_Status_ContainerStatuses p). cs_Name c \<noteq> cn)"
  with containerError_absent[of cn a p]
  show "containerError a cn p =
        Some (if pod_Status_ContainerStatuses p = [] then NoContainerInPod
              else NotFoundContainer cn)" by blast
next
  assume C: "ListPods a ns = Inr items \<and> cn \<noteq> [] \<and> cn \<noteq> FirstContainer a \<and>
    p \<in> set items \<and> pod_Name p \<in> set names \<and>
    (\<forall>c\<in>set (pod_Status_ContainerStatuses p). cs_Name c \<noteq> cn)"
  with containerError_absent[of cn a p] have "containerError a cn p \<noteq> None" by simp
  moreover from C have "p \<in> set (filter (\<lambda>p. pod_Name p \<in> set names) items)" by simp
  ultimately have
    "\<exists>q\<in>set (filter (\<lambda>p. pod_Name p \<in> set names) items). containerError a cn q \<noteq> None"
    by blast
  from first_failure[OF this] obtain pre' q post' e' where
    "filter (\<lambda>p. pod_Name p \<in> set names) items = pre' @ q # post'"
    "\<forall>x\<in>set pre'. containerError a cn x = None" "containerError a cn q = Some e'" by blast
  with C GetPodListByPodName_fail[of a ns items names pre' q post' cn e']
  show "snd (GetPodListByPodName a ns names cn) \<noteq> None" by simp
qed

lemma example_ListPods:
  "ListPods exampleAnalyzer ''chaosmeta'' =
     Inr [examplePod ''chaosmeta-0''
            [\<lparr>cs_Name = ''sidecar'', cs_ContainerID = ''docker://s0''\<rparr>,
             \<lparr>cs_Name = ''nginx'', cs_ContainerID = ''docker://g3g3g0''\<rparr>],
          examplePod ''chaosmeta-1''
            [\<lparr>cs_Name = ''nginx'', cs_ContainerID = ''docker://g3g3g1''\<rparr>],
          examplePod ''chaosmeta-2'' []]"
  by (simp add: exampleAnalyzer_def)

lemma example_FirstContainer: "FirstContainer exampleAnalyzer = ''firstcontainer''"
  by (simp add: exampleAnalyzer_def)

lemma example_ParseContainerID:
  "ParseContainerID exampleAnalyzer s =
     (if prefix ''docker://'' s then (''docker'', drop 9 s, None)
      else ([], [], Some (External ''unexpected container id'')))"
  by (simp add: exampleAnalyzer_def)

lemma example_containerError:
  "containerError exampleAnalyzer ''nginx''
     (examplePod ''chaosmeta-0''
        [\<lparr>cs_Name = ''sidecar'', cs_ContainerID = ''docker://s0''\<rparr>,
         \<lparr>cs_Name = ''nginx'', cs_ContainerID = ''docker://g3g3g0''\<rparr>]) = None"
  "containerError exampleAnalyzer ''nginx''
     (examplePod ''chaosmeta-1''
        [\<lparr>cs_Name = ''nginx'', cs_ContainerID = ''docker://g3g3g1''\<rparr>]) = None"
  "containerError exampleAnalyzer ''nginx'' (examplePod ''chaosmeta-2'' [])
     = Some NoContainerInPod"
  by (simp_all add: containerError_def GetTargetContainer_def examplePod_def
        example_FirstContainer example_ParseContainerID)

text \<open>
  Claim C4 as stated fails: the pod \<open>chaosmeta-2\<close> matches the name list and its status
  list, being empty, does not hold the container \<open>nginx\<close>, yet the error is "no container
  in pod" and not "not found container".
\<close>

theorem GetPodListByPodName_counterexample:
  "pod_Name (examplePod ''chaosmeta-2'' []) = ''chaosmeta-2'' \<and>
   pod_Status_ContainerStatuses (examplePod ''chaosmeta-2'' []) = [] \<and>
   GetPodListByPodName exampleAnalyzer ''chaosmeta'' [''chaosmeta-2''] ''nginx'' =
     ([], Some (GetTargetContainerError ''nginx'' ''chaosmeta-2'' (Error NoContainerInPod))) \<and>
   GetPodListByPodName exampleAnalyzer ''chaosmeta'' [''chaosmeta-2''] ''nginx'' \<noteq>
     ([], Some (GetTargetContainerError ''nginx'' ''chaosmeta-2''
                  (Error (NotFoundContainer ''nginx''))))"
  by (simp add: GetPodListByPodName_def example_ListPods lookupBool_def examplePod_def
        GetTargetContainer_def)

theorem GetPodListByPodName_result_witness:
  "GetPodListByPodName (exampleAnalyzer\<lparr>ListPods := \<lambda>ns. Inl (External ''connection refused'')\<rparr>)
     ''chaosmeta'' [''chaosmeta-0''] []
     = ([], Some (ListPodError ''connection refused'')) \<and>
   map PodName (fst (GetPodListByPodName exampleAnalyzer ''chaosmeta''
                       [''chaosmeta-1'', ''chaosmeta-0'', ''chaosmeta-1''] []))
     = [''chaosmeta-0'', ''chaosmeta-1''] \<and>
   map (\<lambda>x. (PodName x, ContainerRuntime x, ContainerID x, ContainerName x))
     (fst (GetPodListByPodName exampleAnalyzer ''chaosmeta''
             [''chaosmeta-1'', ''chaosmeta-0''] ''nginx''))
     = [(''chaosmeta-0'', ''docker'', ''g3g3g0'', ''nginx''),
        (''chaosmeta-1'', ''docker'', ''g3g3g1'', ''nginx'')] \<and>
   GetPodListByPodName exampleAnalyzer ''chaosmeta'' [''chaosmeta-1'', ''chaosmeta-2''] ''nginx''
     = ([], Some (GetTargetContainerError ''nginx'' ''chaosmeta-2'' ''no container in pod'')) \<and>
   GetPodListByPodName exampleAnalyzer ''chaosmeta'' [''chaosmeta-0''] ''redis''
     = ([], Some (GetTargetContainerError ''redis'' ''chaosmeta-0'' ''not found container redis''))"
proof -
  let ?p0 = "examplePod ''chaosmeta-0''
            [\<lparr>cs_Name = ''sidecar'', cs_ContainerID = ''docker://s0''\<rparr>,
             \<lparr>cs_Name = ''nginx'', cs_ContainerID = ''docker://g3g3g0''\<rparr>]"
  let ?p1 = "examplePod ''chaosmeta-1''
            [\<lparr>cs_Name = ''nginx'', cs_ContainerID = ''docker://g3g3g1''\<rparr>]"
  let ?p2 = "examplePod ''chaosmeta-2'' []"
  let ?items = "[?p0, ?p1, ?p2]"
  let ?bad = "exampleAnalyzer\<lparr>ListPods := \<lambda>ns. Inl (External ''connection refused'')\<rparr>"
  have L: "ListPods exampleAnalyzer ''chaosmeta'' = Inr ?items" by (rule example_ListPods)
  have n: "pod_Name ?p0 = ''chaosmeta-0''" "pod_Name ?p1 = ''chaosmeta-1''"
    "pod_Name ?p2 = ''chaosmeta-2''"
    by (simp_all add: examplePod_def)
  have st: "pod_Status_ContainerStatuses ?p0 =
              [\<lparr>cs_Name = ''sidecar'', cs_ContainerID = ''docker://s0''\<rparr>,
               \<lparr>cs_Name = ''nginx'', cs_ContainerID = ''docker://g3g3g0''\<rparr>]"
    "pod_Status_ContainerStatuses ?p1 = [\<lparr>cs_Name = ''nginx'', cs_ContainerID = ''docker://g3g3g1''\<rparr>]"
    "pod_Status_ContainerStatuses ?p2 = []"
    by (simp_all add: examplePod_def)
  have g0: "GetTargetContainer exampleAnalyzer ''nginx'' (pod_Status_ContainerStatuses ?p0)
              = (''docker'', ''g3g3g0'', ''nginx'', None)"
    by (simp add: st GetTargetContainer_def example_FirstContainer example_ParseContainerID)
  have g1: "GetTargetContainer exampleAnalyzer ''nginx'' (pod_Status_ContainerStatuses ?p1)
              = (''docker'', ''g3g3g1'', ''nginx'', None)"
    by (simp add: st GetTargetContainer_def example_FirstContainer example_ParseContainerID)
  \<comment> \<open>the listing fails\<close>
  from GetPodListByPodName_result[of ?bad "''chaosmeta''" "External ''connection refused''"
         "[''chaosmeta-0'']" "[]"]
  have 1: "GetPodListByPodName ?bad ''chaosmeta'' [''chaosmeta-0''] []
             = ([], Some (ListPodError ''connection refused''))"
    by simp
  \<comment> \<open>no container name\<close>
  from GetPodListByPodName_result[of exampleAnalyzer "''chaosmeta''" _
         "[''chaosmeta-1'', ''chaosmeta-0'', ''chaosmeta-1'']" "[]" ?items] L
  have "GetPodListByPodName exampleAnalyzer ''chaosmeta''
          [''chaosmeta-1'', ''chaosmeta-0'', ''chaosmeta-1''] []
        = (map newPodObject (filter (\<lambda>p. pod_Name p \<in>
             set [''chaosmeta-1'', ''chaosmeta-0'', ''chaosmeta-1'']) ?items), None)"
    by blast
  then have 2: "map PodName (fst (GetPodListByPodName exampleAnalyzer ''chaosmeta''
                       [''chaosmeta-1'', ''chaosmeta-0'', ''chaosmeta-1''] []))
     = [''chaosmeta-0'', ''chaosmeta-1'']"
    by (simp add: n newPodObject_def)
  \<comment> \<open>a container name that resolves on every matching pod\<close>
  have ok: "\<forall>q\<in>set (filter (\<lambda>p. pod_Name p \<in> set [''chaosmeta-1'', ''chaosmeta-0'']) ?items).
              containerError exampleAnalyzer ''nginx'' q = None"
    by (simp add: n example_containerError)
  from GetPodListByPodName_result[of exampleAnalyzer "''chaosmeta''" _
         "[''chaosmeta-1'', ''chaosmeta-0'']" "''nginx''" ?items] L ok
  have r3: "GetPodListByPodName exampleAnalyzer ''chaosmeta'' [''chaosmeta-1'', ''chaosmeta-0''] ''nginx''
        = (map (podObjectOf exampleAnalyzer ''nginx'')
             (filter (\<lambda>p. pod_Name p \<in> set [''chaosmeta-1'', ''chaosmeta-0'']) ?items), None)"
    by simp
  from GetPodListByPodName_result[of exampleAnalyzer _ _ _ "''nginx''" _ ?p0
         "''docker''" "''g3g3g0''" "''nginx''"] g0
  have o0: "podObjectOf exampleAnalyzer ''nginx'' ?p0 =
        (newPodObject ?p0)\<lparr>ContainerRuntime := ''docker'', ContainerID := ''g3g3g0'',
                             ContainerName := ''nginx''\<rparr>"
    by simp
  from GetPodListByPodName_result[of exampleAnalyzer _ _ _ "''nginx''" _ ?p1
         "''docker''" "''g3g3g1''" "''nginx''"] g1
  have o1: "podObjectOf exampleAnalyzer ''nginx'' ?p1 =
        (newPodObject ?p1)\<lparr>ContainerRuntime := ''docker'', ContainerID := ''g3g3g1'',
                             ContainerName := ''nginx''\<rparr>"
    by simp
  from r3 have 3: "map (\<lambda>x. (PodName x, ContainerRuntime x, ContainerID x, ContainerName x))
     (fst (GetPodListByPodName exampleAnalyzer ''chaosmeta''
             [''chaosmeta-1'', ''chaosmeta-0''] ''nginx''))
     = [(''chaosmeta-0'', ''docker'', ''g3g3g0'', ''nginx''),
        (''chaosmeta-1'', ''docker'', ''g3g3g1'', ''nginx'')]"
    by (simp add: n o0 o1) (simp add: newPodObject_def n)
  \<comment> \<open>the second matching pod has no container status\<close>
  have f4: "filter (\<lambda>p. pod_Name p \<in> set [''chaosmeta-1'', ''chaosmeta-2'']) ?items
              = [?p1] @ ?p2 # []"
    by (simp add: n)
  from GetPodListByPodName_result[of exampleAnalyzer "''chaosmeta''" _
         "[''chaosmeta-1'', ''chaosmeta-2'']" "''nginx''" ?items ?p2 _ _ _ "[?p1]" "[]"
         NoContainerInPod] L f4 example_containerError
  have 4: "GetPodListByPodName exampleAnalyzer ''chaosmeta'' [''chaosmeta-1'', ''chaosmeta-2''] ''nginx''
     = ([], Some (GetTargetContainerError ''nginx'' ''chaosmeta-2'' ''no container in pod''))"
    by (simp add: n)
  \<comment> \<open>the matching pod has statuses, none with the name\<close>
  have ab: "''redis'' \<noteq> [] \<and> ''redis'' \<noteq> FirstContainer exampleAnalyzer \<and>
            (\<forall>c\<in>set (pod_Status_ContainerStatuses ?p0). cs_Name c \<noteq> ''redis'')"
    by (simp add: st example_FirstContainer)
  from GetPodListByPodName_result[of exampleAnalyzer _ _ _ "''redis''" _ ?p0] ab
  have ce: "containerError exampleAnalyzer ''redis'' ?p0 = Some (NotFoundContainer ''redis'')"
    by (simp add: st)
  have f5: "filter (\<lambda>p. pod_Name p \<in> set [''chaosmeta-0'']) ?items = [] @ ?p0 # []"
    by (simp add: n)
  from GetPodListByPodName_result[of exampleAnalyzer "''chaosmeta''" _
         "[''chaosmeta-0'']" "''redis''" ?items ?p0 _ _ _ "[]" "[]"
         "NotFoundContainer ''redis''"] L f5 ce
  have 5: "GetPodListByPodName exampleAnalyzer ''chaosmeta'' [''chaosmeta-0''] ''redis''
     = ([], Some (GetTargetContainerError ''redis'' ''chaosmeta-0'' ''not found container redis''))"
    by (simp add: n)
  from ab L n GetPodListByPodName_result[of exampleAnalyzer "''chaosmeta''" _
         "[''chaosmeta-0'']" "''redis''" ?items ?p0]
  have 6: "snd (GetPodListByPodName exampleAnalyzer ''chaosmeta'' [''chaosmeta-0''] ''redis'') \<noteq> None"
    by simp
  from 1 2 3 4 5 show ?thesis by blast
qed

lemma podNameLoop_cong:
  "\<forall>k. lookupBool M k = lookupBool M' k \<Longrightarrow>
   podNameLoop a M cn items acc = podNameLoop a M' cn items acc"
  by (induction items arbitrary: acc) (auto simp: Let_def split: prod.splits option.splits)

lemma nodeNameLoop_cong:
  "\<forall>k. lookupBool M k = lookupBool M' k \<Longrightarrow>
   nodeNameLoop a M cn items acc = nodeNameLoop a M' cn items acc"
  by (induction items arbitrary: acc) (auto simp: Let_def split: prod.splits option.splits)

lemma podNameLoop_success:
  assumes "podNameLoop a M cn items acc = (res, None)"
  shows "res = acc @ map (podObjectOf a cn) (filter (\<lambda>p. lookupBool M (pod_Name p)) items)"
proof (cases "\<exists>p\<in>set (filter (\<lambda>p. lookupBool M (pod_Name p)) items). containerError a cn p \<noteq> None")
  case True
  from first_failure[OF True] obtain pre p post e where
    "filter (\<lambda>p. lookupBool M (pod_Name p)) items = pre @ p # post"
    "\<forall>q\<in>set pre. containerError a cn q = None" "containerError a cn p = Some e" by blast
  from podNameLoop_fail[OF this] assms show ?thesis by simp
next
  case False
  then have "\<forall>p\<in>set (filter (\<lambda>p. lookupBool M (pod_Name p)) items). containerError a cn p = None"
    by blast
  from podNameLoop_ok[OF this] assms show ?thesis by simp
qed

lemma PodName_podObjectOf: "PodName (podObjectOf a cn p) = pod_Name p"
  by (simp add: podObjectOf_def newPodObject_def split: prod.splits)

lemma addressLoop_NodeName: "node_NodeName (addressLoop as t) = node_NodeName t"
  by (induction as arbitrary: t) auto

lemma NodeName_newNodeObject: "node_NodeName (newNodeObject n) = node_Name n"
  by (simp add: newNodeObject_def addressLoop_NodeName)

lemma nodeNameLoop_names:
  "nodeNameLoop a M cn items acc = (res, None) \<Longrightarrow>
   map node_NodeName res =
     map node_NodeName acc @ filter (\<lambda>n. lookupBool M n) (map node_Name items)"
proof (induction items arbitrary: acc)
  case Nil
  then show ?case by simp
next
  case (Cons x xs)
  show ?case
  proof (cases "lookupBool M (node_Name x)")
    case False
    with Cons show ?thesis by simp
  next
    case True
    show ?thesis
    proof (cases "cn = []")
      case cn: True
      with True Cons.prems have
        "nodeNameLoop a M cn xs (acc @ [newNodeObject x]) = (res, None)" by simp
      from Cons.IH[OF this] True show ?thesis by (simp add: NodeName_newNodeObject)
    next
      case cn: False
      obtain r i e where p: "ParseContainerID a cn = (r, i, e)"
        by (cases "ParseContainerID a cn") auto
      show ?thesis
      proof (cases e)
        case None
        with p cn True Cons.prems have
          "nodeNameLoop a M cn xs
             (acc @ [(newNodeObject x)\<lparr>node_ContainerRuntime := r, node_ContainerID := i\<rparr>])
           = (res, None)" by simp
        from Cons.IH[OF this] True show ?thesis by (simp add: NodeName_newNodeObject)
      next
        case (Some err)
        with p cn True Cons.prems show ?thesis by simp
      qed
    qed
  qed
qed

lemma filter_map_names:
  "filter (\<lambda>n. n \<in> set names) (map f items) = map f (filter (\<lambda>p. f p \<in> set names) items)"
  by (induction items) auto

text \<open>
  Claim C10. The requested names count as a set: a name list and the same list with
  its duplicates removed (or any list with the same elements) give the same result,
  for pods and for nodes. The names of the returned objects are the listed names that
  are requested, in the order of the listing: a listed object is returned at most
  once, and never out of the listing's order.
\<close>

theorem byName_once_in_listing_order:
  "GetPodListByPodName a ns names cn = GetPodListByPodName a ns (remdups names) cn \<and>
   GetNodeListByNodeName a names cn = GetNodeListByNodeName a (remdups names) cn \<and>
   (set names = set names' \<longrightarrow>
      GetPodListByPodName a ns names cn = GetPodListByPodName a ns names' cn \<and>
      GetNodeListByNodeName a names cn = GetNodeListByNodeName a names' cn) \<and>
   (ListPods a ns = Inr items \<and> GetPodListByPodName a ns names cn = (objs, None) \<longrightarrow>
      map PodName objs = filter (\<lambda>n. n \<in> set names) (map pod_Name items) \<and>
      (distinct (map pod_Name items) \<longrightarrow> distinct (map PodName objs))) \<and>
   (ListNodes a = Inr nodes \<and> GetNodeListByNodeName a names cn = (nobjs, None) \<longrightarrow>
      map node_NodeName nobjs = filter (\<lambda>n. n \<in> set names) (map node_Name nodes) \<and>
      (distinct (map node_Name nodes) \<longrightarrow> distinct (map node_NodeName nobjs)))"
proof -
  have eq: "GetPodListByPodName a ns xs cn = GetPodListByPodName a ns ys cn \<and>
            GetNodeListByNodeName a xs cn = GetNodeListByNodeName a ys cn"
    if "set xs = set ys" for xs ys
  proof -
    from that have "\<forall>k. lookupBool (nameMap xs Map.empty) k = lookupBool (nameMap ys Map.empty) k"
      by (simp add: lookupBool_nameMap_empty)
    then show ?thesis
      by (auto simp: GetPodListByPodName_def GetNodeListByNodeName_def
            podNameLoop_cong[of "nameMap xs Map.empty" "nameMap ys Map.empty"]
            nodeNameLoop_cong[of "nameMap xs Map.empty" "nameMap ys Map.empty"]
          split: sum.splits)
  qed
  have pods: "map PodName objs = filter (\<lambda>n. n \<in> set names) (map pod_Name items)"
    if "ListPods a ns = Inr items" "GetPodListByPodName a ns names cn = (objs, None)"
  proof -
    from that have "podNameLoop a (nameMap names Map.empty) cn items [] = (objs, None)"
      by (simp add: GetPodListByPodName_def)
    from podNameLoop_success[OF this] show ?thesis
      by (simp add: matching_eq filter_map_names PodName_podObjectOf comp_def)
  qed
  have nodes: "map node_NodeName nobjs = filter (\<lambda>n. n \<in> set names) (map node_Name nodes)"
    if "ListNodes a = Inr nodes" "GetNodeListByNodeName a names cn = (nobjs, None)"
  proof -
    from that have "nodeNameLoop a (nameMap names Map.empty) cn nodes [] = (nobjs, None)"
      by (simp add: GetNodeListByNodeName_def)
    from nodeNameLoop_names[OF this] show ?thesis
      by (simp add: lookupBool_nameMap_empty)
  qed
  from eq[of names "remdups names"] eq[of names names'] pods nodes show ?thesis
    by (auto simp: distinct_map_filter)
qed

theorem byName_once_in_listing_order_witness:
  "set [''chaosmeta-1'', ''chaosmeta-0'', ''chaosmeta-1''] = set [''chaosmeta-0'', ''chaosmeta-1''] \<and>
   GetPodListByPodName exampleAnalyzer ''chaosmeta'' [''chaosmeta-1'', ''chaosmeta-0'', ''chaosmeta-1''] ''nginx''
     = GetPodListByPodName exampleAnalyzer ''chaosmeta'' [''chaosmeta-0'', ''chaosmeta-1''] ''nginx'' \<and>
   snd (GetPodListByPodName exampleAnalyzer ''chaosmeta''
          [''chaosmeta-1'', ''chaosmeta-0'', ''chaosmeta-1''] ''nginx'') = None \<and>
   map PodName (fst (GetPodListByPodName exampleAnalyzer ''chaosmeta''
                       [''chaosmeta-1'', ''chaosmeta-0'', ''chaosmeta-1''] ''nginx''))
     = [''chaosmeta-0'', ''chaosmeta-1''] \<and>
   snd (GetNodeListByNodeName exampleAnalyzer [''node-2'', ''node-1'', ''node-2''] []) = None \<and>
   map node_NodeName (fst (GetNodeListByNodeName exampleAnalyzer [''node-2'', ''node-1'', ''node-2''] []))
     = [''node-1'', ''node-2'']"
proof -
  let ?names = "[''chaosmeta-1'', ''chaosmeta-0'', ''chaosmeta-1'']"
  let ?nodes = "[''node-2'', ''node-1'', ''node-2'']"
  have s: "set ?names = set [''chaosmeta-0'', ''chaosmeta-1'']" by auto
  have pn: "snd (GetPodListByPodName exampleAnalyzer ''chaosmeta'' ?names ''nginx'') = None"
    by (simp add: GetPodListByPodName_def example_ListPods lookupBool_def examplePod_def
          GetTargetContainer_def example_FirstContainer example_ParseContainerID)
  have nn: "snd (GetNodeListByNodeName exampleAnalyzer ?nodes []) = None"
    by (simp add: GetNodeListByNodeName_def exampleAnalyzer_def lookupBool_def)
  have pr: "GetPodListByPodName exampleAnalyzer ''chaosmeta'' ?names ''nginx'' =
              (fst (GetPodListByPodName exampleAnalyzer ''chaosmeta'' ?names ''nginx''), None)"
    using pn by (simp add: prod_eq_iff)
  have nr: "GetNodeListByNodeName exampleAnalyzer ?nodes [] =
              (fst (GetNodeListByNodeName exampleAnalyzer ?nodes []), None)"
    using nn by (simp add: prod_eq_iff)
  have ln: "ListNodes exampleAnalyzer =
        Inr [\<lparr>node_Name = ''node-1'',
              node_Status_Addresses =
                [\<lparr>addr_Type = ''InternalIP'', addr_Address = ''2.2.2.1''\<rparr>,
                 \<lparr>addr_Type = ''Hostname'', addr_Address = ''host-1''\<rparr>]\<rparr>,
             \<lparr>node_Name = ''node-2'',
              node_Status_Addresses =
                [\<lparr>addr_Type = ''InternalIP'', addr_Address = ''2.2.2.2''\<rparr>]\<rparr>]"
    by (simp add: exampleAnalyzer_def)
  let ?items = "[examplePod ''chaosmeta-0''
            [\<lparr>cs_Name = ''sidecar'', cs_ContainerID = ''docker://s0''\<rparr>,
             \<lparr>cs_Name = ''nginx'', cs_ContainerID = ''docker://g3g3g0''\<rparr>],
          examplePod ''chaosmeta-1''
            [\<lparr>cs_Name = ''nginx'', cs_ContainerID = ''docker://g3g3g1''\<rparr>],
          examplePod ''chaosmeta-2'' []]"
  let ?nodeItems = "[\<lparr>node_Name = ''node-1'',
              node_Status_Addresses =
                [\<lparr>addr_Type = ''InternalIP'', addr_Address = ''2.2.2.1''\<rparr>,
                 \<lparr>addr_Type = ''Hostname'', addr_Address = ''host-1''\<rparr>]\<rparr>,
             \<lparr>node_Name = ''node-2'',
              node_Status_Addresses =
                [\<lparr>addr_Type = ''InternalIP'', addr_Address = ''2.2.2.2''\<rparr>]\<rparr>]"
  note T = byName_once_in_listing_order[of exampleAnalyzer "''chaosmeta''" ?names "''nginx''"
             "[''chaosmeta-0'', ''chaosmeta-1'']" ?items
             "fst (GetPodListByPodName exampleAnalyzer ''chaosmeta'' ?names ''nginx'')"
             ?nodeItems "[]"]
  from T s have 1: "GetPodListByPodName exampleAnalyzer ''chaosmeta'' ?names ''nginx''
     = GetPodListByPodName exampleAnalyzer ''chaosmeta'' [''chaosmeta-0'', ''chaosmeta-1''] ''nginx''"
    by blast
  from T example_ListPods pr
  have "map PodName (fst (GetPodListByPodName exampleAnalyzer ''chaosmeta'' ?names ''nginx''))
     = filter (\<lambda>n. n \<in> set ?names) (map pod_Name ?items)"
    by blast
  then have 2: "map PodName (fst (GetPodListByPodName exampleAnalyzer ''chaosmeta'' ?names ''nginx''))
     = [''chaosmeta-0'', ''chaosmeta-1'']"
    by (simp add: examplePod_def)
  from byName_once_in_listing_order[of exampleAnalyzer "''chaosmeta''" ?nodes "[]" "[]" "[]" "[]"
         ?nodeItems "fst (GetNodeListByNodeName exampleAnalyzer ?nodes [])"] ln nr
  have "map node_NodeName (fst (GetNodeListByNodeName exampleAnalyzer ?nodes []))
     = filter (\<lambda>n. n \<in> set ?nodes) (map node_Name ?nodeItems)"
    by blast
  then have 3: "map node_NodeName (fst (GetNodeListByNodeName exampleAnalyzer ?nodes []))
     = [''node-1'', ''node-2'']"
    by simp
  from s 1 pn 2 nn 3 show ?thesis by blast
qed

section \<open>Properties of the running pass\<close>

lemma activeDetail_setActiveDetail: "activeDetail (setActiveDetail exp units) = units"
  by (simp add: activeDetail_def setActiveDetail_def split: PhaseType.splits)

lemma activeDetail_exp_Status: "activeDetail (exp\<lparr>exp_Status := st\<rparr>) = activeDetail exp"
  by (simp add: activeDetail_def split: PhaseType.splits)

lemma exp_Status_setActiveDetail: "exp_Status (setActiveDetail exp units) = exp_Status exp"
  by (simp add: setActiveDetail_def split: PhaseType.splits)

lemma activeDetail_SolveRunning:
  "exp_Status exp = RunningStatusType \<Longrightarrow>
   activeDetail (SolveRunning h exp) = map (solveRunningUnit h (exp_Phase exp)) (activeDetail exp)"
  by (simp add: SolveRunning_def Let_def activeDetail_setActiveDetail activeDetail_exp_Status)

lemma exp_Status_SolveRunning:
  "exp_Status exp = RunningStatusType \<Longrightarrow>
   exp_Status (SolveRunning h exp) =
     (let units = map (solveRunningUnit h (exp_Phase exp)) (activeDetail exp)
      in if list_all (\<lambda>u. terminal (Status u)) units
         then if list_all (\<lambda>u. Status u = SuccessStatusType) units
              then SuccessStatusType else FailedStatusType
         else RunningStatusType)"
  by (simp add: SolveRunning_def Let_def exp_Status_setActiveDetail)

text \<open>
  Claim C3. When the experiment is running, the active direction has at least one
  unit, every unit of it is running and the query fails for every target that
  resolves, the pass leaves every unit of the active direction failed and the
  experiment failed. A pass on a running experiment ends with the overall status
  succeeded only if every unit of the active direction has succeeded.
\<close>

theorem SolveRunning_query_failures:
  "(exp_Status exp = RunningStatusType \<and> activeDetail exp \<noteq> [] \<and>
    (\<forall>u\<in>set (activeDetail exp).
       Status u = RunningStatusType \<and>
       (\<forall>obj. GetInjectObject h (InjectObjectName u) = Inr obj \<longrightarrow>
          isl (QueryExperiment h obj (UID u) (exp_Phase exp)))) \<longrightarrow>
      length (activeDetail (SolveRunning h exp)) = length (activeDetail exp) \<and>
      (\<forall>u\<in>set (activeDetail (SolveRunning h exp)). Status u = FailedStatusType) \<and>
      exp_Status (SolveRunning h exp) = FailedStatusType) \<and>
   (exp_Status exp = RunningStatusType \<and> exp_Status (SolveRunning h exp) = SuccessStatusType \<longrightarrow>
      (\<forall>u\<in>set (activeDetail (SolveRunning h exp)). Status u = SuccessStatusType))"
proof (intro conjI impI)
  assume A: "exp_Status exp = RunningStatusType \<and> activeDetail exp \<noteq> [] \<and>
    (\<forall>u\<in>set (activeDetail exp).
       Status u = RunningStatusType \<and>
       (\<forall>obj. GetInjectObject h (InjectObjectName u) = Inr obj \<longrightarrow>
          isl (QueryExperiment h obj (UID u) (exp_Phase exp))))"
  let ?units = "map (solveRunningUnit h (exp_Phase exp)) (activeDetail exp)"
  have failed: "Status (solveRunningUnit h (exp_Phase exp) u) = FailedStatusType"
    if "u \<in> set (activeDetail exp)" for u
  proof -
    from A that have r: "Status u = RunningStatusType"
      and q: "\<forall>obj. GetInjectObject h (InjectObjectName u) = Inr obj \<longrightarrow>
                isl (QueryExperiment h obj (UID u) (exp_Phase exp))" by blast+
    show ?thesis
    proof (cases "GetInjectObject h (InjectObjectName u)")
      case (Inl e)
      with r show ?thesis by (simp add: solveRunningUnit_def)
    next
      case (Inr obj)
      with q have "isl (QueryExperiment h obj (UID u) (exp_Phase exp))" by blast
      with r Inr show ?thesis
        by (cases "QueryExperiment h obj (UID u) (exp_Phase exp)")
           (simp_all add: solveRunningUnit_def)
    qed
  qed
  from A have act: "activeDetail (SolveRunning h exp) = ?units"
    by (simp add: activeDetail_SolveRunning)
  then show "length (activeDetail (SolveRunning h exp)) = length (activeDetail exp)" by simp
  from act failed show all: "\<forall>u\<in>set (activeDetail (SolveRunning h exp)). Status u = FailedStatusType"
    by auto
  from failed have t: "list_all (\<lambda>u. terminal (Status u)) ?units"
    by (simp add: list_all_iff terminal_def)
  from A obtain u0 where "u0 \<in> set (activeDetail exp)" by (cases "activeDetail exp") auto
  with failed have "\<not> list_all (\<lambda>u. Status u = SuccessStatusType) ?units"
    by (auto simp: list_all_iff)
  with t A show "exp_Status (SolveRunning h exp) = FailedStatusType"
    by (simp add: exp_Status_SolveRunning Let_def)
next
  assume B: "exp_Status exp = RunningStatusType \<and> exp_Status (SolveRunning h exp) = SuccessStatusType"
  then have "list_all (\<lambda>u. Status u = SuccessStatusType)
               (map (solveRunningUnit h (exp_Phase exp)) (activeDetail exp))"
    by (auto simp: exp_Status_SolveRunning Let_def split: if_splits)
  with B show "\<forall>u\<in>set (activeDetail (SolveRunning h exp)). Status u = SuccessStatusType"
    by (simp add: activeDetail_SolveRunning list_all_iff)
qed

theorem SolveRunning_query_failures_witness:
  "exp_Status testExperiment = RunningStatusType \<and>
   map Status (activeDetail testExperiment) = [RunningStatusType, RunningStatusType] \<and>
   map Status (activeDetail (SolveRunning testScopeHandler testExperiment))
     = [FailedStatusType, FailedStatusType] \<and>
   exp_Status (SolveRunning testScopeHandler testExperiment) = FailedStatusType \<and>
   exp_Status (SolveRunning (testScopeHandler\<lparr>QueryExperiment := \<lambda>obj uid phase. Inr SuccessStatusType\<rparr>)
                 testExperiment) = SuccessStatusType \<and>
   map Status (activeDetail
     (SolveRunning (testScopeHandler\<lparr>QueryExperiment := \<lambda>obj uid phase. Inr SuccessStatusType\<rparr>)
        testExperiment)) = [SuccessStatusType, SuccessStatusType]"
proof -
  let ?ok = "testScopeHandler\<lparr>QueryExperiment := \<lambda>obj uid phase. Inr SuccessStatusType\<rparr>"
  have act: "activeDetail testExperiment =
        [\<lparr>InjectObjectName = ''pod/chaosmeta/chaosmeta-1'', UID = ''fwaf1'',
          Status = RunningStatusType\<rparr>,
         \<lparr>InjectObjectName = ''pod/chaosmeta/chaosmeta-2'', UID = ''fwaf2'',
          Status = RunningStatusType\<rparr>]"
    by (simp add: activeDetail_def testExperiment_def)
  have run: "exp_Status testExperiment = RunningStatusType"
    by (simp add: testExperiment_def)
  have hyp: "exp_Status testExperiment = RunningStatusType \<and> activeDetail testExperiment \<noteq> [] \<and>
    (\<forall>u\<in>set (activeDetail testExperiment).
       Status u = RunningStatusType \<and>
       (\<forall>obj. GetInjectObject testScopeHandler (InjectObjectName u) = Inr obj \<longrightarrow>
          isl (QueryExperiment testScopeHandler obj (UID u) (exp_Phase testExperiment))))"
    by (simp add: run act) (simp add: testScopeHandler_def)
  from SolveRunning_query_failures[of testExperiment testScopeHandler] hyp
  have f: "length (activeDetail (SolveRunning testScopeHandler testExperiment))
             = length (activeDetail testExperiment)"
    "\<forall>u\<in>set (activeDetail (SolveRunning testScopeHandler testExperiment)).
        Status u = FailedStatusType"
    "exp_Status (SolveRunning testScopeHandler testExperiment) = FailedStatusType"
    by blast+
  have l: "activeDetail (SolveRunning h testExperiment) =
             map (solveRunningUnit h (exp_Phase testExperiment)) (activeDetail testExperiment)"
    for h :: "string ScopeHandler"
    by (simp add: activeDetail_SolveRunning run)
  from f(2) have 1: "map Status (activeDetail (SolveRunning testScopeHandler testExperiment))
     = [FailedStatusType, FailedStatusType]"
    by (simp add: l act)
  have s: "exp_Status (SolveRunning ?ok testExperiment) = SuccessStatusType"
    by (simp add: exp_Status_SolveRunning run act Let_def solveRunningUnit_def
          testScopeHandler_def terminal_def)
  from SolveRunning_query_failures[of testExperiment ?ok] run s
  have "\<forall>u\<in>set (activeDetail (SolveRunning ?ok testExperiment)). Status u = SuccessStatusType"
    by blast
  then have 2: "map Status (activeDetail (SolveRunning ?ok testExperiment))
                     = [SuccessStatusType, SuccessStatusType]"
    by (simp add: l act)
  from run act 1 f(3) s 2 show ?thesis by simp
qed

end
